theory Spec2Isabelle
  imports Complex_Main "HOL-Library.Sublist" "HOL-Library.Multiset" "HOL-Library.Log_Nat"
begin

section \<open>Python values, strings and errors\<close>

text \<open>
  The Python sources work on \<open>str\<close>, on numbers and on dictionaries typed
  \<open>Dict[str, Any]\<close>. A \<open>str\<close> is modelled by \<open>string\<close>, each \<open>char\<close> standing for
  the code point below 256 with that number. A value of type \<open>Any\<close> is one of
  \<open>None\<close>, a \<open>bool\<close>, an \<open>int\<close>, a finite \<open>float\<close> (carried as the rational number it
  denotes) or a \<open>str\<close>. An exception is a value of type \<open>py_error\<close>.
\<close>

datatype py_error =
  TypeError | KeyError | IndexError | ValueError | OverflowError | AssertionError
  | RuntimeError | FileNotFoundError | UnpicklingError | OSError

datatype pyval = PNone | PBool bool | PInt int | PFloat rat | PStr string

type_synonym pydict = "string \<rightharpoonup> pyval"

text \<open>\<open>c.isspace()\<close>, which is also what \<open>\s\<close> matches and what \<open>strip\<close> and \<open>split\<close> cut at.\<close>

definition is_space :: "char \<Rightarrow> bool" where
  "is_space c =
     (let n = (of_char c :: nat)
      in (9 \<le> n \<and> n \<le> 13) \<or> (28 \<le> n \<and> n \<le> 32) \<or> n = 133 \<or> n = 160)"

text \<open>\<open>c.isupper()\<close> and \<open>c.lower()\<close> on the code points below 256.\<close>

definition is_upper :: "char \<Rightarrow> bool" where
  "is_upper c =
     (let n = (of_char c :: nat)
      in (65 \<le> n \<and> n \<le> 90) \<or> (192 \<le> n \<and> n \<le> 222 \<and> n \<noteq> 215))"

definition lower_char :: "char \<Rightarrow> char" where
  "lower_char c = (if is_upper c then char_of (of_char c + (32::nat)) else c)"

definition lower :: "string \<Rightarrow> string" where
  "lower s = map lower_char s"

definition lstrip :: "string \<Rightarrow> string" where
  "lstrip s = dropWhile is_space s"

definition rstrip :: "string \<Rightarrow> string" where
  "rstrip s = rev (dropWhile is_space (rev s))"

definition strip :: "string \<Rightarrow> string" where
  "strip s = rstrip (lstrip s)"

text \<open>\<open>s.replace(c, '')\<close> for a one-character \<open>c\<close>.\<close>

definition remove_char :: "char \<Rightarrow> string \<Rightarrow> string" where
  "remove_char c s = filter (\<lambda>d. d \<noteq> c) s"

text \<open>\<open>sub in s\<close> on strings.\<close>

definition contains :: "string \<Rightarrow> string \<Rightarrow> bool" where
  "contains s sub = sublist sub s"

text \<open>\<open>str(n)\<close> for an \<open>int\<close>.\<close>

definition digit_char :: "int \<Rightarrow> char" where
  "digit_char d = char_of (48 + d)"

function pos_str :: "int \<Rightarrow> string" where
  "pos_str n = (if n < 10 then [digit_char n] else pos_str (n div 10) @ [digit_char (n mod 10)])"
  by pat_completeness auto
termination
  by (relation "measure nat") auto

definition int_str :: "int \<Rightarrow> string" where
  "int_str i = (if i < 0 then CHR ''-'' # pos_str (- i) else pos_str i)"

text \<open>
  Floats. A finite double is carried as the rational it denotes. The double nearest to a
  positive rational \<open>r\<close>: with \<open>2^k \<le> r < 2^(k+1)\<close> the spacing of the doubles around
  \<open>r\<close> is \<open>2^(k-52)\<close>, and never less than \<open>2^-1074\<close>; \<open>r\<close> is rounded to a multiple of
  the spacing, a tie going to the even multiple. Python's \<open>a / b\<close> on two \<open>int\<close>s and
  \<open>float(s)\<close> on a decimal string both return the double nearest to the exact value.
\<close>

definition pow2 :: "int \<Rightarrow> rat" where
  "pow2 k = (if k \<ge> 0 then 2 ^ nat k else 1 / 2 ^ nat (- k))"

definition round_half_even :: "rat \<Rightarrow> int" where
  "round_half_even r =
     (if r - of_int \<lfloor>r\<rfloor> < 1 / 2 then \<lfloor>r\<rfloor>
      else if r - of_int \<lfloor>r\<rfloor> > 1 / 2 then \<lfloor>r\<rfloor> + 1
      else if even \<lfloor>r\<rfloor> then \<lfloor>r\<rfloor> else \<lfloor>r\<rfloor> + 1)"

definition bit_gap :: "rat \<Rightarrow> int" where
  "bit_gap r = bitlen (fst (quotient_of r)) - bitlen (snd (quotient_of r))"

definition floor_log2 :: "rat \<Rightarrow> int" where
  "floor_log2 r = (if pow2 (bit_gap r) \<le> r then bit_gap r else bit_gap r - 1)"

definition double_exponent :: "rat \<Rightarrow> int" where
  "double_exponent r = max (floor_log2 r - 52) (- 1074)"

definition nearest_double :: "rat \<Rightarrow> rat" where
  "nearest_double r =
     of_int (round_half_even (r / pow2 (double_exponent r))) * pow2 (double_exponent r)"

text \<open>
  \<open>str(v)\<close>. The text of a \<open>float\<close> is produced by the Python runtime (the shortest
  decimal that reads back as the same double); it is the parameter \<open>float_str\<close>.
\<close>

fun py_str :: "(rat \<Rightarrow> string) \<Rightarrow> pyval \<Rightarrow> string" where
  "py_str float_str PNone = ''None''"
| "py_str float_str (PBool b) = (if b then ''True'' else ''False'')"
| "py_str float_str (PInt i) = int_str i"
| "py_str float_str (PFloat r) = float_str r"
| "py_str float_str (PStr s) = s"

text \<open>The truth value of \<open>v\<close> in a condition.\<close>

fun truthy :: "pyval \<Rightarrow> bool" where
  "truthy PNone = False"
| "truthy (PBool b) = b"
| "truthy (PInt i) = (i \<noteq> 0)"
| "truthy (PFloat r) = (r \<noteq> 0)"
| "truthy (PStr s) = (s \<noteq> [])"

text \<open>The number a value denotes, when it is one (\<open>bool\<close> is a subclass of \<open>int\<close>).\<close>

fun num_of :: "pyval \<Rightarrow> rat option" where
  "num_of PNone = None"
| "num_of (PBool b) = Some (if b then 1 else 0)"
| "num_of (PInt i) = Some (of_int i)"
| "num_of (PFloat r) = Some r"
| "num_of (PStr s) = None"

text \<open>
  \<open>v >= x\<close> and \<open>v > x\<close> for a float \<open>x\<close>: a comparison of numbers, and a \<open>TypeError\<close> when
  \<open>v\<close> is \<open>None\<close> or a \<open>str\<close>.
\<close>

definition py_ge :: "pyval \<Rightarrow> rat \<Rightarrow> py_error + bool" where
  "py_ge v x = (case num_of v of None \<Rightarrow> Inl TypeError | Some r \<Rightarrow> Inr (r \<ge> x))"

definition py_gt :: "pyval \<Rightarrow> rat \<Rightarrow> py_error + bool" where
  "py_gt v x = (case num_of v of None \<Rightarrow> Inl TypeError | Some r \<Rightarrow> Inr (r > x))"

text \<open>\<open>max(x, v)\<close> for a float \<open>x\<close>: the first argument unless the second is greater.\<close>

definition py_max :: "rat \<Rightarrow> pyval \<Rightarrow> py_error + pyval" where
  "py_max x v = (case py_gt v x of Inl e \<Rightarrow> Inl e | Inr b \<Rightarrow> Inr (if b then v else PFloat x))"

text \<open>\<open>d.get(k)\<close> and \<open>d.get(k, default)\<close>.\<close>

definition dict_get :: "pydict \<Rightarrow> string \<Rightarrow> pyval \<Rightarrow> pyval" where
  "dict_get d k dflt = (case d k of None \<Rightarrow> dflt | Some v \<Rightarrow> v)"

section \<open>The verifier (\<open>verifier.py\<close>)\<close>

text \<open>
  The float literals of \<open>verify\<close>, each as the double it denotes: \<open>0.65\<close>, \<open>0.7\<close> and
  \<open>0.6\<close> are not dyadic and stand for the nearest double; \<open>0.75\<close>, \<open>1.0\<close> and \<open>0.0\<close> are
  exact.
\<close>

definition f_0_65 :: rat where
  "f_0_65 = 5854679515581645 / 9007199254740992"

definition f_0_7 :: rat where
  "f_0_7 = 3152519739159347 / 4503599627370496"

definition f_0_6 :: rat where
  "f_0_6 = 5404319552844595 / 9007199254740992"

definition f_0_75 :: rat where
  "f_0_75 = 3 / 4"

record verifier =
  prefer_pal :: bool

text \<open>The dictionary \<open>verify\<close> returns; its key \<open>method\<close> is the field \<open>method_name\<close>.\<close>

record reconciliation =
  final_answer :: string
  method_name :: string
  confidence :: pyval

definition complexity_indicators :: "string list" where
  "complexity_indicators =
     [''every'', ''each'', ''doubles'', ''triples'',
      ''weekend'', ''weekday'', ''except'',
      ''both'', ''either'', ''between'',
      ''saturday'', ''sunday'', ''monday'',
      ''morning'', ''evening'', ''afternoon'']"

definition is_complex_word_problem :: "string \<Rightarrow> bool" where
  "is_complex_word_problem question =
     (let q_lower = lower question;
          matches = length (filter (\<lambda>indicator. contains q_lower indicator) complexity_indicators)
      in matches \<ge> 2)"

definition normalize_answer_v :: "(rat \<Rightarrow> string) \<Rightarrow> pyval \<Rightarrow> string" where
  "normalize_answer_v float_str answer =
     (let s = lower (strip (py_str float_str answer));
          s = remove_char (CHR ''%'') (remove_char (CHR ''$'') (remove_char (CHR '','') s))
      in filter (\<lambda>c. \<not> is_space c) s)"

definition arithmetic_indicators :: "string list" where
  "arithmetic_indicators =
     [''calculate'', ''compute'', ''how many'', ''how much'',
      ''total'', ''sum'', ''difference'', ''product'', ''quotient'',
      ''+'', ''-'', ''*'', ''/'', ''divide'', ''multiply'',
      ''cost'', ''price'', ''earn'', ''spend'', ''pay'']"

definition is_arithmetic_question :: "string \<Rightarrow> bool" where
  "is_arithmetic_question question =
     (let q_lower = lower question
      in list_ex (\<lambda>indicator. contains q_lower indicator) arithmetic_indicators)"

text \<open>
  \<open>Verifier.verify\<close>. The two dictionaries are read with \<open>get\<close>; the PAL side succeeded
  when its \<open>success\<close> entry is true in a condition, the CoT side when its \<open>result\<close> is
  not \<open>None\<close>. The comparisons of the confidence are made in the order of the source, so
  a \<open>TypeError\<close> arises only on the paths that reach one.
\<close>

definition verify_disagree ::
  "(rat \<Rightarrow> string) \<Rightarrow> verifier \<Rightarrow> pyval \<Rightarrow> pyval \<Rightarrow> pyval \<Rightarrow> string \<Rightarrow> py_error + reconciliation" where
  "verify_disagree float_str self pal_answer cot_answer cot_confidence question =
     (let is_arithmetic = is_arithmetic_question question;
          is_complex = is_complex_word_problem question
      in case (if is_complex then py_ge cot_confidence f_0_65 else Inr False) of
           Inl e \<Rightarrow> Inl e
         | Inr True \<Rightarrow>
             Inr \<lparr>final_answer = py_str float_str cot_answer,
                  method_name = ''cot_complex_problem'', confidence = cot_confidence\<rparr>
         | Inr False \<Rightarrow>
             if is_arithmetic \<and> \<not> is_complex \<and> prefer_pal self
             then Inr \<lparr>final_answer = py_str float_str pal_answer,
                       method_name = ''pal_simple_arithmetic'', confidence = PFloat f_0_75\<rparr>
             else (case py_ge cot_confidence f_0_7 of
                     Inl e \<Rightarrow> Inl e
                   | Inr True \<Rightarrow>
                       Inr \<lparr>final_answer = py_str float_str cot_answer,
                            method_name = ''cot_high_confidence'', confidence = cot_confidence\<rparr>
                   | Inr False \<Rightarrow>
                       (case py_ge cot_confidence f_0_6 of
                          Inl e \<Rightarrow> Inl e
                        | Inr True \<Rightarrow>
                            Inr \<lparr>final_answer = py_str float_str cot_answer,
                                 method_name = ''cot_medium_confidence'', confidence = cot_confidence\<rparr>
                        | Inr False \<Rightarrow>
                            Inr \<lparr>final_answer = py_str float_str pal_answer,
                                 method_name = ''pal_default'', confidence = PFloat f_0_65\<rparr>)))"

text \<open>The five reads at the head of \<open>verify\<close>.\<close>

definition pal_success :: "pydict \<Rightarrow> bool" where
  "pal_success pal_result = truthy (dict_get pal_result ''success'' (PBool False))"

definition cot_success :: "pydict \<Rightarrow> bool" where
  "cot_success cot_result = (dict_get cot_result ''result'' PNone \<noteq> PNone)"

definition pal_answer :: "pydict \<Rightarrow> pyval" where
  "pal_answer pal_result = dict_get pal_result ''result'' PNone"

definition cot_answer :: "pydict \<Rightarrow> pyval" where
  "cot_answer cot_result = dict_get cot_result ''result'' PNone"

definition cot_confidence :: "pydict \<Rightarrow> pyval" where
  "cot_confidence cot_result = dict_get cot_result ''confidence'' (PFloat 0)"

definition verify ::
  "(rat \<Rightarrow> string) \<Rightarrow> verifier \<Rightarrow> pydict \<Rightarrow> pydict \<Rightarrow> string \<Rightarrow> py_error + reconciliation" where
  "verify float_str self pal_result cot_result question =
     (if pal_success pal_result \<and> cot_success cot_result then
        (if normalize_answer_v float_str (pal_answer pal_result)
              = normalize_answer_v float_str (cot_answer cot_result)
         then Inr \<lparr>final_answer = py_str float_str (pal_answer pal_result),
                   method_name = ''both_agree'', confidence = PFloat 1\<rparr>
         else verify_disagree float_str self (pal_answer pal_result) (cot_answer cot_result)
                (cot_confidence cot_result) question)
      else if pal_success pal_result then
        Inr \<lparr>final_answer = py_str float_str (pal_answer pal_result),
             method_name = ''pal_only'', confidence = PFloat f_0_7\<rparr>
      else if cot_success cot_result then
        (case py_max f_0_6 (cot_confidence cot_result) of
           Inl e \<Rightarrow> Inl e
         | Inr c \<Rightarrow>
             Inr \<lparr>final_answer = py_str float_str (cot_answer cot_result),
                  method_name = ''cot_only'', confidence = c\<rparr>)
      else
        Inr \<lparr>final_answer = ''0'', method_name = ''fallback'', confidence = PFloat 0\<rparr>)"

section \<open>Self-consistency voting (\<open>self_consistency.py\<close>)\<close>

text \<open>
  \<open>collections.Counter\<close> is a dictionary in insertion order: counting a key that is
  already there adds one to its entry, a new key is appended with count 1.
\<close>

fun counter_add :: "('k \<times> nat) list \<Rightarrow> 'k \<Rightarrow> ('k \<times> nat) list" where
  "counter_add [] k = [(k, 1)]"
| "counter_add ((k', n) # kvs) k =
     (if k' = k then (k', Suc n) # kvs else (k', n) # counter_add kvs k)"

definition Counter :: "'k list \<Rightarrow> ('k \<times> nat) list" where
  "Counter xs = foldl counter_add [] xs"

text \<open>
  \<open>most_common(1)\<close> is \<open>max\<close> over the items by count; \<open>max\<close> keeps the item it has
  unless a later one is strictly greater. On an empty counter the list is empty.
\<close>

fun max_first :: "('k \<times> nat) \<Rightarrow> ('k \<times> nat) list \<Rightarrow> ('k \<times> nat)" where
  "max_first best [] = best"
| "max_first best (kv # kvs) = max_first (if snd kv > snd best then kv else best) kvs"

definition most_common1 :: "('k \<times> nat) list \<Rightarrow> ('k \<times> nat) list" where
  "most_common1 items = (case items of [] \<Rightarrow> [] | kv # kvs \<Rightarrow> [max_first kv kvs])"

text \<open>
  \<open>vote_answers\<close>. The comprehension \<open>[a.strip().lower() for a in answers if a]\<close> keeps
  the entries that are not the empty string and normalizes them afterwards. The
  confidence \<open>count / len(normalized)\<close> is a true division of two \<open>int\<close>s: the double
  nearest to the quotient.
\<close>

definition kept_answers :: "string list \<Rightarrow> string list" where
  "kept_answers answers = filter (\<lambda>a. a \<noteq> []) answers"

definition normalized_answers :: "string list \<Rightarrow> string list" where
  "normalized_answers answers = map (\<lambda>a. lower (strip a)) (kept_answers answers)"

definition vote_confidence :: "nat \<Rightarrow> nat \<Rightarrow> rat" where
  "vote_confidence n_votes n_kept = nearest_double (of_nat n_votes / of_nat n_kept)"

definition vote_answers :: "string list \<Rightarrow> py_error + (string option \<times> rat)" where
  "vote_answers answers =
     (if answers = [] then Inr (None, 0)
      else if normalized_answers answers = [] then Inr (None, 0)
      else (case most_common1 (Counter (normalized_answers answers)) of
              [] \<Rightarrow> Inl IndexError
            | (majority_answer, n_votes) # _ \<Rightarrow>
                (case find (\<lambda>orig. lower (strip orig) = majority_answer) answers of
                   Some orig \<Rightarrow>
                     Inr (Some (strip orig),
                          vote_confidence n_votes (length (normalized_answers answers)))
                 | None \<Rightarrow>
                     Inr (Some majority_answer,
                          vote_confidence n_votes (length (normalized_answers answers))))))"

section \<open>Pattern extraction (\<open>pattern_extractor.py\<close>)\<close>

text \<open>\<open>HopInfo\<close> and \<open>ReasoningPattern\<close>; the fields of the latter carry the suffix \<open>_p\<close>.\<close>

record hop_info =
  document_title :: string
  sentence_id :: int
  sentence_text :: string
  entities_extracted :: "string list"
  role :: string

record reasoning_pattern =
  question_id_p :: string
  question_p :: string
  question_type_p :: string
  level_p :: string
  num_hops_p :: nat
  hops_p :: "hop_info list"
  bridge_entity_p :: "string option"
  comparison_dimension_p :: "string option"
  answer_p :: string

text \<open>\<open>xs[i]\<close>: a negative index counts from the end, an index outside raises.\<close>

definition py_index :: "'a list \<Rightarrow> int \<Rightarrow> py_error + 'a" where
  "py_index xs i =
     (if 0 \<le> i \<and> i < int (length xs) then Inr (xs ! nat i)
      else if i < 0 \<and> - i \<le> int (length xs) then Inr (xs ! nat (int (length xs) + i))
      else Inl IndexError)"

text \<open>
  \<open>re.findall(r'"([^"]*)"', text)\<close>: from the next double quote (code point 0x22) to
  the one after it, then on from behind that one; a quote that is never closed gives
  no match.
\<close>

function findall_quoted :: "string \<Rightarrow> string list" where
  "findall_quoted s =
     (case dropWhile (\<lambda>c. c \<noteq> CHR 0x22) s of
        [] \<Rightarrow> []
      | q # rest \<Rightarrow>
          (case dropWhile (\<lambda>c. c \<noteq> CHR 0x22) rest of
             [] \<Rightarrow> []
           | q' # after \<Rightarrow> takeWhile (\<lambda>c. c \<noteq> CHR 0x22) rest # findall_quoted after))"
  by pat_completeness auto
termination
proof (relation "measure length")
  show "wf (measure length)" by simp
next
  fix s :: string and q rest q' after
  assume a: "dropWhile (\<lambda>c. c \<noteq> CHR 0x22) s = q # rest"
    and b: "dropWhile (\<lambda>c. c \<noteq> CHR 0x22) rest = q' # after"
  have "length (q # rest) \<le> length s" unfolding a [symmetric] by (rule length_dropWhile_le)
  moreover have "length (q' # after) \<le> length rest" unfolding b [symmetric] by (rule length_dropWhile_le)
  ultimately show "(after, s) \<in> measure length" by simp
qed

text \<open>\<open>text.split()\<close>: the maximal runs of characters that are not whitespace.\<close>

fun split_aux :: "string \<Rightarrow> string \<Rightarrow> string list" where
  "split_aux cur [] = (if cur = [] then [] else [rev cur])"
| "split_aux cur (c # cs) =
     (if is_space c then (if cur = [] then split_aux [] cs else rev cur # split_aux [] cs)
      else split_aux (c # cur) cs)"

definition split :: "string \<Rightarrow> string list" where
  "split s = split_aux [] s"

text \<open>\<open>sep.join(words)\<close>.\<close>

fun join :: "string \<Rightarrow> string list \<Rightarrow> string" where
  "join sep [] = []"
| "join sep [w] = w"
| "join sep (w # ws) = w @ sep @ join sep ws"

text \<open>The loop of \<open>_extract_entities\<close> over the words, \<open>current_entity\<close> being its state.\<close>

fun capitalized_runs :: "string list \<Rightarrow> string list \<Rightarrow> string list" where
  "capitalized_runs current_entity [] =
     (if current_entity \<noteq> [] then [join '' '' current_entity] else [])"
| "capitalized_runs current_entity (word # ws) =
     (if word \<noteq> [] \<and> is_upper (hd word) then capitalized_runs (current_entity @ [word]) ws
      else if current_entity \<noteq> [] then join '' '' current_entity # capitalized_runs [] ws
      else capitalized_runs [] ws)"

text \<open>
  \<open>_extract_entities\<close> ends with \<open>list(set(entities))\<close>, whose order is the runtime's
  (it depends on the hash seed). The parameter \<open>set_list\<close> is that enumeration: it maps
  the elements put into a set to the list in which Python iterates over them.
\<close>

definition extract_entities :: "(string list \<Rightarrow> string list) \<Rightarrow> string \<Rightarrow> string list" where
  "extract_entities set_list text =
     set_list (findall_quoted text @ capitalized_runs [] (split text))"

definition determine_hop_role :: "nat \<Rightarrow> nat \<Rightarrow> string \<Rightarrow> string" where
  "determine_hop_role hop_idx total_hops qtype =
     (if qtype = ''bridge'' then
        (if hop_idx = 0 then ''starter''
         else if int hop_idx = int total_hops - 1 then ''final''
         else ''bridge'')
      else ''comparison'')"

text \<open>
  The loop of \<open>extract_pattern\<close> over \<open>enumerate(supporting_facts)\<close>, \<open>idx\<close> being the
  index of the head of the list; a hop is appended for a reference that passes both
  tests.
\<close>

fun hop_loop ::
  "(string list \<Rightarrow> string list) \<Rightarrow> string \<Rightarrow> nat \<Rightarrow> (string \<rightharpoonup> string list)
     \<Rightarrow> nat \<Rightarrow> (string \<times> int) list \<Rightarrow> py_error + hop_info list" where
  "hop_loop set_list qtype total_hops ctx idx [] = Inr []"
| "hop_loop set_list qtype total_hops ctx idx ((doc_title, sent_id) # rest) =
     (case ctx doc_title of
        None \<Rightarrow> hop_loop set_list qtype total_hops ctx (Suc idx) rest
      | Some sentences \<Rightarrow>
          if sent_id < int (length sentences) then
            (case py_index sentences sent_id of
               Inl e \<Rightarrow> Inl e
             | Inr text \<Rightarrow>
                 (case hop_loop set_list qtype total_hops ctx (Suc idx) rest of
                    Inl e \<Rightarrow> Inl e
                  | Inr hops \<Rightarrow>
                      Inr (\<lparr>document_title = doc_title, sentence_id = sent_id,
                            sentence_text = text,
                            entities_extracted = extract_entities set_list text,
                            role = determine_hop_role idx total_hops qtype\<rparr> # hops)))
          else hop_loop set_list qtype total_hops ctx (Suc idx) rest)"

definition find_bridge_entity ::
  "(string list \<Rightarrow> string list) \<Rightarrow> hop_info list \<Rightarrow> py_error + string option" where
  "find_bridge_entity set_list hops =
     (if length hops < 2 then Inr None
      else let entities_1 = set_list (entities_extracted (hops ! 0));
               entities_2 = set_list (entities_extracted (hops ! 1));
               common = filter (\<lambda>e. e \<in> set entities_2) entities_1
           in if common \<noteq> [] then
                (case py_index (set_list common) 0 of Inl e \<Rightarrow> Inl e | Inr entity \<Rightarrow> Inr (Some entity))
              else Inr (find (\<lambda>entity. contains (lower (sentence_text (hops ! 1))) (lower entity))
                          entities_1))"

definition dimensions :: "(string \<times> string list) list" where
  "dimensions =
     [(''date'', [''first'', ''earlier'', ''before'', ''founded'', ''started'', ''established'']),
      (''size'', [''larger'', ''bigger'', ''smaller'', ''size'', ''area'']),
      (''quantity'', [''more'', ''less'', ''most'', ''least'', ''number'']),
      (''location'', [''where'', ''located'', ''place'']),
      (''duration'', [''longer'', ''shorter'', ''duration'', ''time''])]"

definition find_comparison_dimension :: "string \<Rightarrow> string option" where
  "find_comparison_dimension q =
     (let question_lower = lower q
      in case find (\<lambda>(d, keywords). list_ex (\<lambda>kw. contains question_lower kw) keywords) dimensions of
           Some (d, keywords) \<Rightarrow> Some d
         | None \<Rightarrow> Some ''unknown'')"

definition extract_pattern ::
  "(string list \<Rightarrow> string list) \<Rightarrow> string \<Rightarrow> string \<Rightarrow> string \<Rightarrow> string
     \<Rightarrow> (string \<times> int) list \<Rightarrow> (string \<rightharpoonup> string list) \<Rightarrow> string
     \<Rightarrow> py_error + reasoning_pattern" where
  "extract_pattern set_list qid q qtype lvl supporting_facts ctx ans =
     (case hop_loop set_list qtype (length supporting_facts) ctx 0 supporting_facts of
        Inl e \<Rightarrow> Inl e
      | Inr hops \<Rightarrow>
          (case (if qtype = ''bridge'' \<and> length hops \<ge> 2
                 then find_bridge_entity set_list hops else Inr None) of
             Inl e \<Rightarrow> Inl e
           | Inr bridge \<Rightarrow>
               Inr \<lparr>question_id_p = qid, question_p = q, question_type_p = qtype, level_p = lvl,
                    num_hops_p = length hops, hops_p = hops, bridge_entity_p = bridge,
                    comparison_dimension_p =
                      (if qtype = ''comparison'' then find_comparison_dimension q else None),
                    answer_p = ans\<rparr>))"

text \<open>The two tests of the loop: the document is in the context and \<open>sent_id < len(sentences)\<close>.\<close>

definition reference_resolves :: "(string \<rightharpoonup> string list) \<Rightarrow> string \<times> int \<Rightarrow> bool" where
  "reference_resolves ctx ref =
     (case ctx (fst ref) of None \<Rightarrow> False | Some sentences \<Rightarrow> snd ref < int (length sentences))"

section \<open>The semantic index (\<open>semantic_index.py\<close>)\<close>

text \<open>
  The faiss library is outside the repository. Its arithmetic on \<open>float32\<close> vectors
  enters as two parameters: \<open>normalize_L2\<close>, the scaling of a vector to unit length,
  and \<open>rank_ip\<close>, the order in which a flat inner-product index ranks its stored rows
  for a query (row numbers, best first). The element type of the vectors is \<open>'a\<close>.
\<close>

record 'a faiss =
  normalize_L2 :: "'a list \<Rightarrow> 'a list"
  rank_ip :: "'a list list \<Rightarrow> 'a list \<Rightarrow> nat list"

text \<open>\<open>faiss.IndexFlatIP(d)\<close> with the rows added to it.\<close>

record 'a faiss_index =
  index_d :: nat
  index_rows :: "'a list list"

text \<open>
  \<open>IndexedExample\<close>, with the prefix \<open>ex_\<close> on the fields whose names are taken, and
  \<open>SemanticIndex\<close>: two dictionaries of dictionaries, by question type and by level.
\<close>

record 'a indexed_example =
  ex_id :: string
  ex_question :: string
  ex_question_type :: string
  ex_level :: string
  ex_pattern :: reasoning_pattern
  embedding :: "'a list"

record 'a semantic_index =
  dimension :: nat
  indices :: "string \<rightharpoonup> (string \<rightharpoonup> 'a faiss_index option)"
  indexed_examples :: "string \<rightharpoonup> (string \<rightharpoonup> 'a indexed_example list)"

text \<open>
  \<open>index.search(query, k)\<close> for one query row: the wrapper asserts the query's width and
  \<open>k > 0\<close>; the labels are the \<open>k\<close> best rows, filled up with \<open>-1\<close> when the index holds
  fewer.
\<close>

definition index_search ::
  "'a faiss \<Rightarrow> 'a faiss_index \<Rightarrow> 'a list \<Rightarrow> int \<Rightarrow> py_error + int list" where
  "index_search lib index query k =
     (if length query \<noteq> index_d index \<or> k \<le> 0 then Inl AssertionError
      else let found = map int (take (nat k) (rank_ip lib (index_rows index) query))
           in Inr (found @ replicate (nat k - length found) (- 1)))"

text \<open>\<open>m[k1][k2]\<close> when \<open>k1 in m and k2 in m[k1]\<close>.\<close>

definition lookup2 :: "(string \<rightharpoonup> (string \<rightharpoonup> 'x)) \<Rightarrow> string \<Rightarrow> string \<Rightarrow> 'x option" where
  "lookup2 m k1 k2 = (case m k1 of None \<Rightarrow> None | Some inner \<Rightarrow> inner k2)"

text \<open>
  \<open>SemanticIndex.search\<close>. The membership test on \<open>self.indices\<close> comes first, then the
  unguarded read of \<open>self.indexed_examples\<close>, then the test for \<open>None\<close> or no examples.
\<close>

definition search ::
  "'a faiss \<Rightarrow> 'a semantic_index \<Rightarrow> 'a list \<Rightarrow> string \<Rightarrow> string \<Rightarrow> int
     \<Rightarrow> py_error + 'a indexed_example list" where
  "search lib self query_embedding qtype lvl top_k =
     (case lookup2 (indices self) qtype lvl of
        None \<Rightarrow> Inr []
      | Some index \<Rightarrow>
          (case lookup2 (indexed_examples self) qtype lvl of
             None \<Rightarrow> Inl KeyError
           | Some examples \<Rightarrow>
               (case index of
                  None \<Rightarrow> Inr []
                | Some ix \<Rightarrow>
                    if length examples = 0 then Inr []
                    else
                      (case index_search lib ix (normalize_L2 lib query_embedding)
                              (min top_k (int (length examples))) of
                         Inl e \<Rightarrow> Inl e
                       | Inr labels \<Rightarrow>
                           Inr (map (\<lambda>idx. examples ! nat idx)
                                  (filter (\<lambda>idx. 0 \<le> idx \<and> idx < int (length examples))
                                     labels))))))"

text \<open>\<open>SemanticIndex.__init__\<close>.\<close>

definition init_index :: "nat \<Rightarrow> 'a semantic_index" where
  "init_index dimension0 =
     \<lparr>dimension = dimension0,
      indices = [''bridge'' \<mapsto> Map.empty, ''comparison'' \<mapsto> Map.empty],
      indexed_examples =
        [''bridge'' \<mapsto> [''easy'' \<mapsto> [], ''medium'' \<mapsto> [], ''hard'' \<mapsto> []],
         ''comparison'' \<mapsto> [''easy'' \<mapsto> [], ''medium'' \<mapsto> [], ''hard'' \<mapsto> []]]\<rparr>"

text \<open>
  \<open>build_index\<close>: the examples are grouped by question type and level (a \<open>KeyError\<close> for a
  pattern outside the two types and three levels); then, category by category, a
  non-empty group is stored, its embeddings are stacked (\<open>np.vstack\<close> raises on rows of
  different widths), and a new index of the configured dimension takes the normalized
  rows (\<open>index.add\<close> asserts their width).
\<close>

definition make_example :: "reasoning_pattern \<times> 'a list \<Rightarrow> 'a indexed_example" where
  "make_example pe =
     \<lparr>ex_id = question_id_p (fst pe), ex_question = question_p (fst pe),
      ex_question_type = question_type_p (fst pe), ex_level = level_p (fst pe),
      ex_pattern = fst pe, embedding = snd pe\<rparr>"

definition category_known :: "string \<Rightarrow> string \<Rightarrow> bool" where
  "category_known qtype lvl =
     (qtype \<in> set [''bridge'', ''comparison''] \<and> lvl \<in> set [''easy'', ''medium'', ''hard''])"

text \<open>\<open>m[k1][k2] = v\<close>.\<close>

definition set2 ::
  "(string \<rightharpoonup> (string \<rightharpoonup> 'x)) \<Rightarrow> string \<Rightarrow> string \<Rightarrow> 'x
     \<Rightarrow> py_error + (string \<rightharpoonup> (string \<rightharpoonup> 'x))" where
  "set2 m k1 k2 v =
     (case m k1 of None \<Rightarrow> Inl KeyError | Some inner \<Rightarrow> Inr (m(k1 \<mapsto> inner(k2 \<mapsto> v))))"

definition build_category ::
  "'a faiss \<Rightarrow> 'a indexed_example list \<Rightarrow> 'a semantic_index \<Rightarrow> string \<times> string
     \<Rightarrow> py_error + 'a semantic_index" where
  "build_category lib all_examples self cat =
     (let examples =
            filter (\<lambda>ex. ex_question_type ex = fst cat \<and> ex_level ex = snd cat) all_examples
      in if length examples = 0 then Inr self
         else (case set2 (indexed_examples self) (fst cat) (snd cat) examples of
                 Inl e \<Rightarrow> Inl e
               | Inr indexed_examples' \<Rightarrow>
                   if \<exists>ex \<in> set examples. length (embedding ex) \<noteq> length (embedding (hd examples))
                   then Inl ValueError
                   else if length (embedding (hd examples)) \<noteq> dimension self
                   then Inl AssertionError
                   else (case set2 (indices self) (fst cat) (snd cat)
                                 (Some \<lparr>index_d = dimension self,
                                         index_rows = map (\<lambda>ex. normalize_L2 lib (embedding ex))
                                                        examples\<rparr>) of
                           Inl e \<Rightarrow> Inl e
                         | Inr indices' \<Rightarrow>
                             Inr (self\<lparr>indices := indices',
                                       indexed_examples := indexed_examples'\<rparr>))))"

fun build_categories ::
  "'a faiss \<Rightarrow> 'a indexed_example list \<Rightarrow> 'a semantic_index \<Rightarrow> (string \<times> string) list
     \<Rightarrow> py_error + 'a semantic_index" where
  "build_categories lib all_examples self [] = Inr self"
| "build_categories lib all_examples self (cat # cats) =
     (case build_category lib all_examples self cat of
        Inl e \<Rightarrow> Inl e
      | Inr self' \<Rightarrow> build_categories lib all_examples self' cats)"

definition categories :: "(string \<times> string) list" where
  "categories = concat (map (\<lambda>q_type. map (\<lambda>lv. (q_type, lv)) [''easy'', ''medium'', ''hard''])
                          [''bridge'', ''comparison''])"

definition build_index ::
  "'a faiss \<Rightarrow> 'a semantic_index \<Rightarrow> reasoning_pattern list \<Rightarrow> 'a list list
     \<Rightarrow> py_error + 'a semantic_index" where
  "build_index lib self patterns embeddings =
     (let all_examples = map make_example (zip patterns embeddings)
      in if \<exists>ex \<in> set all_examples. \<not> category_known (ex_question_type ex) (ex_level ex)
         then Inl KeyError
         else build_categories lib all_examples self categories)"

text \<open>
  The index and the examples of a category belong together: where \<open>search\<close> finds an
  index it finds the examples, as many as the index has rows, and the index has the
  configured dimension.
\<close>

definition wf_index :: "'a semantic_index \<Rightarrow> bool" where
  "wf_index self =
     (\<forall>qtype lvl index. lookup2 (indices self) qtype lvl = Some index \<longrightarrow>
        (\<exists>examples. lookup2 (indexed_examples self) qtype lvl = Some examples
           \<and> (\<forall>ix. index = Some ix \<longrightarrow>
                 length (index_rows ix) = length examples \<and> index_d ix = dimension self)))"






section \<open>The embedding cache (\<open>few_shot_retriever.py\<close>)\<close>

text \<open>
  A numpy array is its dtype, its shape and its cells; what \<open>pickle.load\<close> finds in the
  cache file is an array, some other object, or nothing it can read (it raises). The
  cache file itself is absent (\<open>None\<close>) or has such a content.
\<close>

datatype np_dtype = Float32 | Float64 | ObjectDtype | OtherDtype









text \<open>
  Example data: a stand-in for faiss that ranks the rows last-first, a pattern, and an
  encoder with its conversion.
\<close>

definition example_faiss :: "rat faiss" where
  "example_faiss = \<lparr>normalize_L2 = (\<lambda>v. v), rank_ip = (\<lambda>rows q. rev [0..<length rows])\<rparr>"

definition example_pattern :: "string \<Rightarrow> string \<Rightarrow> string \<Rightarrow> reasoning_pattern" where
  "example_pattern qid qtype lvl =
     \<lparr>question_id_p = qid, question_p = ''Who?'', question_type_p = qtype, level_p = lvl,
      num_hops_p = 0, hops_p = [], bridge_entity_p = None, comparison_dimension_p = None,
      answer_p = ''x''\<rparr>"


section \<open>Answer normalization (\<open>normalizer.py\<close>)\<close>

text \<open>
  A Python \<open>float\<close> is a finite double (its sign and its magnitude, a rational), an
  infinity or not-a-number; the zero has a sign. The variable \<open>num\<close> of
  \<open>normalize_answer\<close> holds an \<open>int\<close> or a \<open>float\<close>.
\<close>

datatype pyfloat = Finite bool rat | Infinite bool | NaN

datatype pynum = NInt int | NFloat pyfloat

definition is_digit :: "char \<Rightarrow> bool" where
  "is_digit c = (48 \<le> (of_char c :: nat) \<and> (of_char c :: nat) \<le> 57)"

definition digits_value :: "string \<Rightarrow> int" where
  "digits_value ds = foldl (\<lambda>a c. 10 * a + (of_char c - 48)) 0 ds"

text \<open>
  \<open>float(s)\<close> admits an underscore only between two digits; \<open>prev\<close> is the character
  before the rest (the null character at the start).
\<close>

fun underscores_ok :: "char \<Rightarrow> string \<Rightarrow> bool" where
  "underscores_ok prev [] = (prev \<noteq> CHR ''_'')"
| "underscores_ok prev (c # cs) =
     (if c = CHR ''_'' then is_digit prev \<and> underscores_ok c cs
      else if prev = CHR ''_'' then is_digit c \<and> underscores_ok c cs
      else underscores_ok c cs)"

definition pow10 :: "int \<Rightarrow> rat" where
  "pow10 k = (if k \<ge> 0 then 10 ^ nat k else 1 / 10 ^ nat (- k))"

text \<open>
  The float of a magnitude \<open>r\<close> with a sign: the nearest double, an infinity when that is
  \<open>2^1024\<close> or more.
\<close>

definition round_double :: "bool \<Rightarrow> rat \<Rightarrow> pyfloat" where
  "round_double negative r =
     (if r = 0 then Finite negative 0
      else if nearest_double r \<ge> pow2 1024 then Infinite negative
      else Finite negative (nearest_double r))"

text \<open>
  \<open>float(s)\<close> on a string: surrounding whitespace and underscores between digits are
  dropped; after an optional sign come \<open>inf\<close>, \<open>infinity\<close> or \<open>nan\<close> in any case, or
  digits with an optional point and an optional exponent, at least one digit before the
  exponent. \<open>None\<close> stands for the \<open>ValueError\<close>.
\<close>

definition has_sign :: "string \<Rightarrow> bool" where
  "has_sign s = (case s of [] \<Rightarrow> False | c # cs \<Rightarrow> c = CHR ''-'' \<or> c = CHR ''+'')"

definition is_negative :: "string \<Rightarrow> bool" where
  "is_negative s = (case s of [] \<Rightarrow> False | c # cs \<Rightarrow> c = CHR ''-'')"

definition unsigned :: "string \<Rightarrow> string" where
  "unsigned s = (if has_sign s then tl s else s)"

definition parse_exponent :: "string \<Rightarrow> int option" where
  "parse_exponent s =
     (case s of
        [] \<Rightarrow> Some 0
      | c # cs \<Rightarrow>
          if (c = CHR ''e'' \<or> c = CHR ''E'') \<and> unsigned cs \<noteq> [] \<and> list_all is_digit (unsigned cs)
          then Some (if is_negative cs then - digits_value (unsigned cs)
                     else digits_value (unsigned cs))
          else None)"

definition has_point :: "string \<Rightarrow> bool" where
  "has_point s = (case dropWhile is_digit s of [] \<Rightarrow> False | c # cs \<Rightarrow> c = CHR ''.'')"

definition int_digits :: "string \<Rightarrow> string" where
  "int_digits s = takeWhile is_digit s"

definition frac_digits :: "string \<Rightarrow> string" where
  "frac_digits s = (if has_point s then takeWhile is_digit (tl (dropWhile is_digit s)) else [])"

definition after_mantissa :: "string \<Rightarrow> string" where
  "after_mantissa s =
     (if has_point s then dropWhile is_digit (tl (dropWhile is_digit s))
      else dropWhile is_digit s)"

definition parse_decimal :: "bool \<Rightarrow> string \<Rightarrow> pyfloat option" where
  "parse_decimal negative s =
     (if int_digits s = [] \<and> frac_digits s = [] then None
      else (case parse_exponent (after_mantissa s) of
              None \<Rightarrow> None
            | Some x \<Rightarrow>
                Some (round_double negative
                        (of_int (digits_value (int_digits s @ frac_digits s))
                           * pow10 (x - int (length (frac_digits s)))))))"

definition float_body :: "string \<Rightarrow> string" where
  "float_body s = unsigned (remove_char (CHR ''_'') (strip s))"

definition parse_float :: "string \<Rightarrow> pyfloat option" where
  "parse_float s =
     (if \<not> underscores_ok (CHR 0x00) (strip s) then None
      else if lower (float_body s) = ''inf'' \<or> lower (float_body s) = ''infinity''
      then Some (Infinite (is_negative (strip s)))
      else if lower (float_body s) = ''nan'' then Some NaN
      else parse_decimal (is_negative (strip s)) (float_body s))"

text \<open>\<open>int(x)\<close> of a float truncates; it raises on an infinity and on not-a-number.\<close>

definition int_of_float :: "pyfloat \<Rightarrow> py_error + int" where
  "int_of_float x =
     (case x of
        Finite negative m \<Rightarrow> Inr (if negative then - \<lfloor>m\<rfloor> else \<lfloor>m\<rfloor>)
      | Infinite negative \<Rightarrow> Inl OverflowError
      | NaN \<Rightarrow> Inl ValueError)"

definition py_int :: "pynum \<Rightarrow> py_error + int" where
  "py_int num = (case num of NInt i \<Rightarrow> Inr i | NFloat x \<Rightarrow> int_of_float x)"

definition is_integer :: "pyfloat \<Rightarrow> bool" where
  "is_integer x = (case x of Finite negative m \<Rightarrow> of_int \<lfloor>m\<rfloor> = m | _ \<Rightarrow> False)"

text \<open>
  The format \<open>.2f\<close>: the exact value rounded to hundredths (ties to even), the sign kept
  even on a zero; an \<open>int\<close> is converted to \<open>float\<close> first.
\<close>

definition hundredths :: "rat \<Rightarrow> int" where
  "hundredths m = round_half_even (m * 100)"

definition sign_str :: "bool \<Rightarrow> string" where
  "sign_str negative = (if negative then ''-'' else [])"

definition format_2f :: "pyfloat \<Rightarrow> string" where
  "format_2f x =
     (case x of
        Finite negative m \<Rightarrow>
          sign_str negative @ pos_str (hundredths m div 100) @ ''.''
            @ [digit_char (hundredths m div 10 mod 10), digit_char (hundredths m mod 10)]
      | Infinite negative \<Rightarrow> sign_str negative @ ''inf''
      | NaN \<Rightarrow> ''nan'')"

definition float_of_int :: "int \<Rightarrow> pyfloat" where
  "float_of_int i = round_double (i < 0) (of_int \<bar>i\<bar>)"

text \<open>\<open>str(num)\<close>; the text of a finite float is the parameter \<open>float_str\<close>.\<close>

definition str_num :: "(rat \<Rightarrow> string) \<Rightarrow> pynum \<Rightarrow> string" where
  "str_num float_str num =
     (case num of
        NInt i \<Rightarrow> int_str i
      | NFloat (Finite negative m) \<Rightarrow> float_str (if negative then - m else m)
      | NFloat (Infinite negative) \<Rightarrow> sign_str negative @ ''inf''
      | NFloat NaN \<Rightarrow> ''nan'')"

text \<open>\<open>re.sub(r'####\s*', '', answer)\<close>.\<close>

function remove_terminators :: "string \<Rightarrow> string" where
  "remove_terminators s =
     (if prefix ''####'' s then remove_terminators (dropWhile is_space (drop 4 s))
      else case s of [] \<Rightarrow> [] | c # cs \<Rightarrow> c # remove_terminators cs)"
  by pat_completeness auto
termination
proof (relation "measure length")
  show "wf (measure length)" by simp
next
  fix s :: string
  assume "prefix ''####'' s"
  then have "4 \<le> length s" by (auto simp add: prefix_def)
  moreover have "length (dropWhile is_space (drop 4 s)) \<le> length (drop 4 s)"
    by (rule length_dropWhile_le)
  ultimately show "(dropWhile is_space (drop 4 s), s) \<in> measure length" by simp
next
  fix s :: string and c cs
  assume "s = c # cs"
  then show "(cs, s) \<in> measure length" by simp
qed

text \<open>\<open>s.replace(cc, '')\<close> for a doubled character, matches taken from the left.\<close>

fun remove_pairs :: "char \<Rightarrow> string \<Rightarrow> string" where
  "remove_pairs c (a # b # rest) =
     (if a = c \<and> b = c then remove_pairs c rest else a # remove_pairs c (b # rest))"
| "remove_pairs c s = s"

text \<open>
  \<open>normalize_answer\<close>: the cleaning of the answer, the number string, the parse (through
  \<open>float\<close>, and on through \<open>int\<close> when the string has neither a point nor an \<open>e\<close>), the
  formatting, and the \<open>except\<close> clause, which catches \<open>ValueError\<close> and \<open>TypeError\<close> and
  lets every other exception pass.
\<close>

definition clean_answer :: "string \<Rightarrow> string" where
  "clean_answer answer =
     remove_pairs (CHR ''>'') (remove_pairs (CHR ''<'')
       (filter (\<lambda>c. c \<notin> set ''*`[]'') (remove_terminators (strip answer))))"

definition number_string :: "string \<Rightarrow> string" where
  "number_string cleaned = strip (remove_char (CHR '','') (remove_char (CHR ''$'') cleaned))"

definition parse_number :: "string \<Rightarrow> py_error + pynum" where
  "parse_number num_str =
     (case parse_float num_str of
        None \<Rightarrow> Inl ValueError
      | Some x \<Rightarrow>
          if CHR ''.'' \<in> set num_str \<or> CHR ''e'' \<in> set (lower num_str) then Inr (NFloat x)
          else (case int_of_float x of Inl e \<Rightarrow> Inl e | Inr i \<Rightarrow> Inr (NInt i)))"

definition concerns_currency :: "string \<Rightarrow> bool" where
  "concerns_currency question =
     (CHR ''$'' \<in> set question \<or> contains (lower question) ''dollar''
      \<or> contains (lower question) ''cost'' \<or> contains (lower question) ''price'')"

definition format_number :: "(rat \<Rightarrow> string) \<Rightarrow> pynum \<Rightarrow> string \<Rightarrow> py_error + string" where
  "format_number float_str num question =
     (if contains (lower question) ''how many'' then
        (case py_int num of Inl e \<Rightarrow> Inl e | Inr i \<Rightarrow> Inr (int_str i))
      else if concerns_currency question then
        Inr (format_2f (case num of NInt i \<Rightarrow> float_of_int i | NFloat x \<Rightarrow> x))
      else (case num of
              NFloat x \<Rightarrow>
                if is_integer x then
                  (case int_of_float x of Inl e \<Rightarrow> Inl e | Inr i \<Rightarrow> Inr (int_str i))
                else Inr (str_num float_str num)
            | NInt i \<Rightarrow> Inr (str_num float_str num)))"

definition try_number :: "(rat \<Rightarrow> string) \<Rightarrow> string \<Rightarrow> string \<Rightarrow> py_error + string" where
  "try_number float_str cleaned question =
     (case parse_number (number_string cleaned) of
        Inl e \<Rightarrow> Inl e
      | Inr num \<Rightarrow> format_number float_str num question)"

definition normalize_answer :: "(rat \<Rightarrow> string) \<Rightarrow> string \<Rightarrow> string \<Rightarrow> py_error + string" where
  "normalize_answer float_str answer question =
     (case try_number float_str (clean_answer answer) question of
        Inl ValueError \<Rightarrow> Inr (strip (clean_answer answer))
      | Inl TypeError \<Rightarrow> Inr (strip (clean_answer answer))
      | Inl e \<Rightarrow> Inl e
      | Inr s \<Rightarrow> Inr s)"

section \<open>Properties of the verifier\<close>

text \<open>
  C1. When both candidates succeeded and their normalized values are equal (normalize:
  stringify, strip, lowercase, remove commas, dollar and percent signs and all
  whitespace), \<open>verify\<close> returns the PAL value stringified, method \<open>both_agree\<close> and
  confidence 1.0, whatever the question and the verifier's flag.
\<close>

theorem verify_both_agree:
  assumes "pal_success pal_result" and "cot_success cot_result"
    and "normalize_answer_v float_str (pal_answer pal_result)
           = normalize_answer_v float_str (cot_answer cot_result)"
  shows "verify float_str self pal_result cot_result question =
           Inr \<lparr>final_answer = py_str float_str (pal_answer pal_result),
                method_name = ''both_agree'', confidence = PFloat 1\<rparr>"
  using assms by (simp add: verify_def)

text \<open>
  The PAL answer \<open>1234\<close> and the CoT answer \<open>" $1,234 "\<close> agree after normalization, on
  a question that matches both question predicates.
\<close>

theorem verify_both_agree_witness:
  "pal_success [''success'' \<mapsto> PBool True, ''result'' \<mapsto> PInt 1234]
   \<and> cot_success [''result'' \<mapsto> PStr '' $1,234 '', ''confidence'' \<mapsto> PFloat (1 / 3)]
   \<and> normalize_answer_v (\<lambda>r. []) (pal_answer [''success'' \<mapsto> PBool True, ''result'' \<mapsto> PInt 1234])
       = normalize_answer_v (\<lambda>r. [])
           (cot_answer [''result'' \<mapsto> PStr '' $1,234 '', ''confidence'' \<mapsto> PFloat (1 / 3)])
   \<and> verify (\<lambda>r. []) \<lparr>prefer_pal = True\<rparr>
         [''success'' \<mapsto> PBool True, ''result'' \<mapsto> PInt 1234]
         [''result'' \<mapsto> PStr '' $1,234 '', ''confidence'' \<mapsto> PFloat (1 / 3)]
         ''Each weekend, how many?''
       = Inr \<lparr>final_answer = ''1234'', method_name = ''both_agree'', confidence = PFloat 1\<rparr>"
proof -
  let ?pal = "[''success'' \<mapsto> PBool True, ''result'' \<mapsto> PInt 1234]"
  let ?cot = "[''result'' \<mapsto> PStr '' $1,234 '', ''confidence'' \<mapsto> PFloat (1 / 3)]"
  have h1: "pal_success ?pal" by code_simp
  have h2: "cot_success ?cot" by code_simp
  have h3: "normalize_answer_v (\<lambda>r. []) (pal_answer ?pal)
              = normalize_answer_v (\<lambda>r. []) (cot_answer ?cot)" by code_simp
  have s: "py_str (\<lambda>r. []) (pal_answer ?pal) = ''1234''" by code_simp
  show ?thesis
    using verify_both_agree [OF h1 h2 h3, of "\<lparr>prefer_pal = True\<rparr>" "''Each weekend, how many?''"]
      h1 h2 h3 s
    by simp
qed

text \<open>
  The decision table under disagreement, for a confidence that is a number \<open>c\<close>: the
  rules are tried in the order of the source and the first that matches decides.
\<close>

lemma verify_disagree_numeric:
  assumes "num_of conf = Some c"
  shows "verify_disagree float_str self pa ca conf question =
     Inr (if is_complex_word_problem question \<and> c \<ge> f_0_65
          then \<lparr>final_answer = py_str float_str ca,
                method_name = ''cot_complex_problem'', confidence = conf\<rparr>
          else if is_arithmetic_question question \<and> \<not> is_complex_word_problem question
                  \<and> prefer_pal self
          then \<lparr>final_answer = py_str float_str pa,
                method_name = ''pal_simple_arithmetic'', confidence = PFloat f_0_75\<rparr>
          else if c \<ge> f_0_7
          then \<lparr>final_answer = py_str float_str ca,
                method_name = ''cot_high_confidence'', confidence = conf\<rparr>
          else if c \<ge> f_0_6
          then \<lparr>final_answer = py_str float_str ca,
                method_name = ''cot_medium_confidence'', confidence = conf\<rparr>
          else \<lparr>final_answer = py_str float_str pa,
                method_name = ''pal_default'', confidence = PFloat f_0_65\<rparr>)"
  using assms by (simp add: verify_disagree_def py_ge_def Let_def)

text \<open>
  C2, as stated, gives rule (2) to every arithmetic question that is not a complex word
  problem. With a verifier built with \<open>prefer_pal_for_arithmetic = False\<close> the rule is
  switched off: on \<open>What is 3 + 5?\<close>, PAL \<open>8\<close> against CoT \<open>9\<close> at confidence 0.5, the
  result is \<open>pal_default\<close> at 0.65, not \<open>pal_simple_arithmetic\<close> at 0.75.
\<close>

theorem verify_rule_order_counterexample:
  "pal_success [''success'' \<mapsto> PBool True, ''result'' \<mapsto> PInt 8]
   \<and> cot_success [''result'' \<mapsto> PStr ''9'', ''confidence'' \<mapsto> PFloat (1 / 2)]
   \<and> normalize_answer_v (\<lambda>r. []) (pal_answer [''success'' \<mapsto> PBool True, ''result'' \<mapsto> PInt 8])
       \<noteq> normalize_answer_v (\<lambda>r. [])
           (cot_answer [''result'' \<mapsto> PStr ''9'', ''confidence'' \<mapsto> PFloat (1 / 2)])
   \<and> is_arithmetic_question ''What is 3 + 5?''
   \<and> \<not> is_complex_word_problem ''What is 3 + 5?''
   \<and> verify (\<lambda>r. []) \<lparr>prefer_pal = False\<rparr>
         [''success'' \<mapsto> PBool True, ''result'' \<mapsto> PInt 8]
         [''result'' \<mapsto> PStr ''9'', ''confidence'' \<mapsto> PFloat (1 / 2)]
         ''What is 3 + 5?''
       = Inr \<lparr>final_answer = ''8'', method_name = ''pal_default'', confidence = PFloat f_0_65\<rparr>"
  by code_simp

text \<open>
  C2, amended. When both candidates succeeded, their normalized values differ and the CoT
  confidence is a number \<open>c\<close>, \<open>verify\<close> returns the first match of: (1) complex word
  problem and \<open>c >= 0.65\<close>: the CoT value, \<open>cot_complex_problem\<close>, the CoT confidence;
  (2) arithmetic question, not a complex word problem, and the verifier's
  \<open>prefer_pal\<close> flag set: the PAL value, \<open>pal_simple_arithmetic\<close>, 0.75;
  (3) \<open>c >= 0.7\<close>: the CoT value, \<open>cot_high_confidence\<close>, the CoT confidence;
  (4) \<open>c >= 0.6\<close>: the CoT value, \<open>cot_medium_confidence\<close>, the CoT confidence;
  (5) otherwise the PAL value, \<open>pal_default\<close>, 0.65.
\<close>

theorem verify_rule_order:
  assumes "pal_success pal_result" and "cot_success cot_result"
    and "normalize_answer_v float_str (pal_answer pal_result)
           \<noteq> normalize_answer_v float_str (cot_answer cot_result)"
    and "num_of (cot_confidence cot_result) = Some c"
  shows "verify float_str self pal_result cot_result question =
     Inr (if is_complex_word_problem question \<and> c \<ge> f_0_65
          then \<lparr>final_answer = py_str float_str (cot_answer cot_result),
                method_name = ''cot_complex_problem'', confidence = cot_confidence cot_result\<rparr>
          else if is_arithmetic_question question \<and> \<not> is_complex_word_problem question
                  \<and> prefer_pal self
          then \<lparr>final_answer = py_str float_str (pal_answer pal_result),
                method_name = ''pal_simple_arithmetic'', confidence = PFloat f_0_75\<rparr>
          else if c \<ge> f_0_7
          then \<lparr>final_answer = py_str float_str (cot_answer cot_result),
                method_name = ''cot_high_confidence'', confidence = cot_confidence cot_result\<rparr>
          else if c \<ge> f_0_6
          then \<lparr>final_answer = py_str float_str (cot_answer cot_result),
                method_name = ''cot_medium_confidence'', confidence = cot_confidence cot_result\<rparr>
          else \<lparr>final_answer = py_str float_str (pal_answer pal_result),
                method_name = ''pal_default'', confidence = PFloat f_0_65\<rparr>)"
proof -
  have "verify float_str self pal_result cot_result question =
          verify_disagree float_str self (pal_answer pal_result) (cot_answer cot_result)
            (cot_confidence cot_result) question"
    using assms(1-3) by (simp add: verify_def)
  then show ?thesis
    by (simp only: verify_disagree_numeric [OF assms(4)])
qed

text \<open>
  The rule-order example of the spec: a question matching both predicates, CoT confidence
  \<open>0.66\<close> (the double \<open>5944751508129055 / 2^53\<close>), default verifier: rule (1) decides.
\<close>

theorem verify_rule_order_witness:
  "pal_success [''success'' \<mapsto> PBool True, ''result'' \<mapsto> PInt 8]
   \<and> cot_success [''result'' \<mapsto> PStr ''9'',
                  ''confidence'' \<mapsto> PFloat (5944751508129055 / 9007199254740992)]
   \<and> normalize_answer_v (\<lambda>r. []) (pal_answer [''success'' \<mapsto> PBool True, ''result'' \<mapsto> PInt 8])
       \<noteq> normalize_answer_v (\<lambda>r. [])
           (cot_answer [''result'' \<mapsto> PStr ''9'',
                        ''confidence'' \<mapsto> PFloat (5944751508129055 / 9007199254740992)])
   \<and> num_of (cot_confidence [''result'' \<mapsto> PStr ''9'',
                  ''confidence'' \<mapsto> PFloat (5944751508129055 / 9007199254740992)])
       = Some (5944751508129055 / 9007199254740992)
   \<and> is_arithmetic_question ''How many does each cost every weekend?''
   \<and> is_complex_word_problem ''How many does each cost every weekend?''
   \<and> verify (\<lambda>r. []) \<lparr>prefer_pal = True\<rparr>
         [''success'' \<mapsto> PBool True, ''result'' \<mapsto> PInt 8]
         [''result'' \<mapsto> PStr ''9'',
          ''confidence'' \<mapsto> PFloat (5944751508129055 / 9007199254740992)]
         ''How many does each cost every weekend?''
       = Inr \<lparr>final_answer = ''9'', method_name = ''cot_complex_problem'',
              confidence = PFloat (5944751508129055 / 9007199254740992)\<rparr>"
proof -
  let ?c = "5944751508129055 / 9007199254740992 :: rat"
  let ?pal = "[''success'' \<mapsto> PBool True, ''result'' \<mapsto> PInt 8]"
  let ?cot = "[''result'' \<mapsto> PStr ''9'', ''confidence'' \<mapsto> PFloat ?c]"
  let ?q = "''How many does each cost every weekend?''"
  have h1: "pal_success ?pal" by code_simp
  have h2: "cot_success ?cot" by code_simp
  have h3: "normalize_answer_v (\<lambda>r. []) (pal_answer ?pal)
              \<noteq> normalize_answer_v (\<lambda>r. []) (cot_answer ?cot)" by code_simp
  have h4: "num_of (cot_confidence ?cot) = Some ?c" by code_simp
  have a: "is_arithmetic_question ?q" by code_simp
  have k: "is_complex_word_problem ?q" by code_simp
  have g: "?c \<ge> f_0_65" by code_simp
  have s: "py_str (\<lambda>r. []) (cot_answer ?cot) = ''9''" by code_simp
  have v: "cot_confidence ?cot = PFloat ?c" by code_simp
  show ?thesis
    using verify_rule_order [OF h1 h2 h3 h4, of "\<lparr>prefer_pal = True\<rparr>" ?q] h1 h2 h3 h4 a k g s v
    by simp
qed

text \<open>
  C3. When exactly one candidate succeeded, \<open>verify\<close> returns that candidate's value
  stringified: with \<open>pal_only\<close> and confidence 0.7 when it is the PAL candidate, and,
  the CoT confidence being a number \<open>c\<close> (0.0 when the key is missing), with \<open>cot_only\<close>
  and confidence \<open>max(0.6, c)\<close> when it is the CoT candidate. \<open>max\<close> returns one of its
  arguments: the confidence as it was given when it exceeds 0.6, the float 0.6 otherwise.
\<close>

theorem verify_only_one:
  assumes "pal_success pal_result \<noteq> cot_success cot_result"
  shows "(pal_success pal_result \<longrightarrow>
            verify float_str self pal_result cot_result question =
              Inr \<lparr>final_answer = py_str float_str (pal_answer pal_result),
                   method_name = ''pal_only'', confidence = PFloat f_0_7\<rparr>)
     \<and> (\<forall>c. cot_success cot_result \<and> num_of (cot_confidence cot_result) = Some c \<longrightarrow>
            verify float_str self pal_result cot_result question =
              Inr \<lparr>final_answer = py_str float_str (cot_answer cot_result),
                   method_name = ''cot_only'',
                   confidence = (if c > f_0_6 then cot_confidence cot_result else PFloat f_0_6)\<rparr>
            \<and> num_of (if c > f_0_6 then cot_confidence cot_result else PFloat f_0_6)
                = Some (max f_0_6 c))"
  using assms by (auto simp add: verify_def py_max_def py_gt_def max_def)

text \<open>
  Only the PAL candidate succeeded: \<open>pal_only\<close> at 0.7. Only the CoT candidate succeeded,
  at confidence 2/3: \<open>cot_only\<close> at 2/3.
\<close>

theorem verify_only_one_witness:
  "pal_success [''success'' \<mapsto> PBool True, ''result'' \<mapsto> PInt 42]
     \<noteq> cot_success [''result'' \<mapsto> PNone, ''confidence'' \<mapsto> PFloat 0]
   \<and> pal_success [''success'' \<mapsto> PBool True, ''result'' \<mapsto> PInt 42]
   \<and> verify (\<lambda>r. []) \<lparr>prefer_pal = True\<rparr>
         [''success'' \<mapsto> PBool True, ''result'' \<mapsto> PInt 42]
         [''result'' \<mapsto> PNone, ''confidence'' \<mapsto> PFloat 0]
         ''What is 6 * 7?''
       = Inr \<lparr>final_answer = ''42'', method_name = ''pal_only'', confidence = PFloat f_0_7\<rparr>
   \<and> pal_success [''success'' \<mapsto> PBool False, ''result'' \<mapsto> PNone]
       \<noteq> cot_success [''result'' \<mapsto> PStr ''42'', ''confidence'' \<mapsto> PFloat (2 / 3)]
   \<and> cot_success [''result'' \<mapsto> PStr ''42'', ''confidence'' \<mapsto> PFloat (2 / 3)]
   \<and> num_of (cot_confidence [''result'' \<mapsto> PStr ''42'', ''confidence'' \<mapsto> PFloat (2 / 3)])
       = Some (2 / 3)
   \<and> verify (\<lambda>r. []) \<lparr>prefer_pal = True\<rparr>
         [''success'' \<mapsto> PBool False, ''result'' \<mapsto> PNone]
         [''result'' \<mapsto> PStr ''42'', ''confidence'' \<mapsto> PFloat (2 / 3)]
         ''What is 6 * 7?''
       = Inr \<lparr>final_answer = ''42'', method_name = ''cot_only'', confidence = PFloat (2 / 3)\<rparr>"
proof -
  let ?pal1 = "[''success'' \<mapsto> PBool True, ''result'' \<mapsto> PInt 42]"
  let ?cot1 = "[''result'' \<mapsto> PNone, ''confidence'' \<mapsto> PFloat 0]"
  let ?pal2 = "[''success'' \<mapsto> PBool False, ''result'' \<mapsto> PNone]"
  let ?cot2 = "[''result'' \<mapsto> PStr ''42'', ''confidence'' \<mapsto> PFloat (2 / 3)]"
  let ?v = "\<lambda>pal cot. verify (\<lambda>r. []) \<lparr>prefer_pal = True\<rparr> pal cot ''What is 6 * 7?''"
  have a1: "pal_success ?pal1 \<noteq> cot_success ?cot1" by code_simp
  have a2: "pal_success ?pal1" by code_simp
  have a3: "py_str (\<lambda>r. []) (pal_answer ?pal1) = ''42''" by code_simp
  have r1: "?v ?pal1 ?cot1
      = Inr \<lparr>final_answer = ''42'', method_name = ''pal_only'', confidence = PFloat f_0_7\<rparr>"
    using verify_only_one [OF a1, of "\<lambda>r. []" "\<lparr>prefer_pal = True\<rparr>" "''What is 6 * 7?''"] a2 a3
    by simp
  have b1: "pal_success ?pal2 \<noteq> cot_success ?cot2" by code_simp
  have b2: "cot_success ?cot2" by code_simp
  have b3: "num_of (cot_confidence ?cot2) = Some (2 / 3)" by code_simp
  have g: "(2 / 3 :: rat) > f_0_6" by code_simp
  have s: "py_str (\<lambda>r. []) (cot_answer ?cot2) = ''42''" by code_simp
  have v: "cot_confidence ?cot2 = PFloat (2 / 3)" by code_simp
  have "?v ?pal2 ?cot2
      = Inr \<lparr>final_answer = py_str (\<lambda>r. []) (cot_answer ?cot2), method_name = ''cot_only'',
             confidence = (if 2 / 3 > f_0_6 then cot_confidence ?cot2 else PFloat f_0_6)\<rparr>"
    using verify_only_one [OF b1, of "\<lambda>r. []" "\<lparr>prefer_pal = True\<rparr>" "''What is 6 * 7?''"] b2 b3
    by blast
  then have r2: "?v ?pal2 ?cot2
      = Inr \<lparr>final_answer = ''42'', method_name = ''cot_only'', confidence = PFloat (2 / 3)\<rparr>"
    using g s v by simp
  show ?thesis
    by (intro conjI a1 a2 r1 b1 b2 b3 r2)
qed

text \<open>
  C4. When neither candidate succeeded, \<open>verify\<close> returns the fixed answer \<open>"0"\<close> with
  method \<open>fallback\<close> and confidence 0.0; it returns (\<open>Inr\<close>), it does not raise.
\<close>

theorem verify_fallback:
  assumes "\<not> pal_success pal_result" and "\<not> cot_success cot_result"
  shows "verify float_str self pal_result cot_result question =
           Inr \<lparr>final_answer = ''0'', method_name = ''fallback'', confidence = PFloat 0\<rparr>"
  using assms by (simp add: verify_def)

text \<open>Both solvers failed; the confidence entry is not even a number.\<close>

theorem verify_fallback_witness:
  "\<not> pal_success [''success'' \<mapsto> PBool False, ''result'' \<mapsto> PNone]
   \<and> \<not> cot_success [''result'' \<mapsto> PNone, ''confidence'' \<mapsto> PStr ''high'']
   \<and> verify (\<lambda>r. []) \<lparr>prefer_pal = True\<rparr>
         [''success'' \<mapsto> PBool False, ''result'' \<mapsto> PNone]
         [''result'' \<mapsto> PNone, ''confidence'' \<mapsto> PStr ''high'']
         ''How many apples?''
       = Inr \<lparr>final_answer = ''0'', method_name = ''fallback'', confidence = PFloat 0\<rparr>"
proof -
  let ?pal = "[''success'' \<mapsto> PBool False, ''result'' \<mapsto> PNone]"
  let ?cot = "[''result'' \<mapsto> PNone, ''confidence'' \<mapsto> PStr ''high'']"
  have h1: "\<not> pal_success ?pal" by code_simp
  have h2: "\<not> cot_success ?cot" by code_simp
  show ?thesis
    using verify_fallback [OF h1 h2, of "\<lambda>r. []" "\<lparr>prefer_pal = True\<rparr>" "''How many apples?''"] h1 h2
    by simp
qed

text \<open>
  C10 claims that \<open>verify\<close> returns for every pair of dictionaries. A dictionary typed
  \<open>Dict[str, Any]\<close> may hold a confidence that is not a number, and \<open>max(0.6, None)\<close>
  raises: with an empty PAL dictionary and the CoT dictionary
  \<open>{"result": "5", "confidence": None}\<close> the call ends in a \<open>TypeError\<close>.
\<close>

theorem verify_total_counterexample:
  "verify (\<lambda>r. []) \<lparr>prefer_pal = True\<rparr> Map.empty
      [''result'' \<mapsto> PStr ''5'', ''confidence'' \<mapsto> PNone] ''What is 2 + 3?''
     = Inl TypeError"
  by code_simp

text \<open>
  C10, amended. For every pair of dictionaries in which the CoT confidence, when the key
  is present, is a number, \<open>verify\<close> returns a result and does not raise. A missing
  \<open>success\<close> key acts as \<open>success = False\<close>, a missing \<open>confidence\<close> key as confidence
  0.0, the CoT candidate succeeded exactly when its \<open>result\<close> entry is present and not
  \<open>None\<close>, and a \<open>success\<close> entry of the CoT dictionary has no effect.
\<close>

theorem verify_total:
  assumes "num_of (cot_confidence cot_result) \<noteq> None"
  shows "(\<exists>r. verify float_str self pal_result cot_result question = Inr r)
    \<and> (pal_result ''success'' = None \<longrightarrow>
          verify float_str self pal_result cot_result question
            = verify float_str self (pal_result(''success'' \<mapsto> PBool False)) cot_result question)
    \<and> (cot_result ''confidence'' = None \<longrightarrow>
          verify float_str self pal_result cot_result question
            = verify float_str self pal_result (cot_result(''confidence'' \<mapsto> PFloat 0)) question)
    \<and> cot_success cot_result = (\<exists>v. cot_result ''result'' = Some v \<and> v \<noteq> PNone)
    \<and> verify float_str self pal_result (cot_result(''success'' := flag)) question
        = verify float_str self pal_result cot_result question"
proof -
  from assms obtain c where c: "num_of (cot_confidence cot_result) = Some c" by auto
  have total: "\<exists>r. verify float_str self pal_result cot_result question = Inr r"
    by (simp add: verify_def verify_disagree_numeric [OF c] py_max_def py_gt_def c)
  have pal: "verify float_str self pal_result cot_result question
        = verify float_str self (pal_result(''success'' \<mapsto> PBool False)) cot_result question"
    if "pal_result ''success'' = None"
  proof -
    have "pal_success (pal_result(''success'' \<mapsto> PBool False)) = pal_success pal_result"
      and "pal_answer (pal_result(''success'' \<mapsto> PBool False)) = pal_answer pal_result"
      using that by (simp_all add: pal_success_def pal_answer_def dict_get_def)
    then show ?thesis unfolding verify_def by (simp cong: sum.case_cong)
  qed
  have cot: "verify float_str self pal_result cot_result question
        = verify float_str self pal_result (cot_result(''confidence'' \<mapsto> PFloat 0)) question"
    if "cot_result ''confidence'' = None"
  proof -
    have "cot_success (cot_result(''confidence'' \<mapsto> PFloat 0)) = cot_success cot_result"
      and "cot_answer (cot_result(''confidence'' \<mapsto> PFloat 0)) = cot_answer cot_result"
      and "cot_confidence (cot_result(''confidence'' \<mapsto> PFloat 0)) = cot_confidence cot_result"
      using that by (simp_all add: cot_success_def cot_answer_def cot_confidence_def dict_get_def)
    then show ?thesis unfolding verify_def by (simp cong: sum.case_cong)
  qed
  have succ: "cot_success cot_result = (\<exists>v. cot_result ''result'' = Some v \<and> v \<noteq> PNone)"
    by (auto simp add: cot_success_def dict_get_def split: option.splits)
  have flag: "verify float_str self pal_result (cot_result(''success'' := flag)) question
      = verify float_str self pal_result cot_result question"
  proof -
    have "cot_success (cot_result(''success'' := flag)) = cot_success cot_result"
      and "cot_answer (cot_result(''success'' := flag)) = cot_answer cot_result"
      and "cot_confidence (cot_result(''success'' := flag)) = cot_confidence cot_result"
      by (simp_all add: cot_success_def cot_answer_def cot_confidence_def dict_get_def)
    then show ?thesis unfolding verify_def by (simp cong: sum.case_cong)
  qed
  from total pal cot succ flag show ?thesis by blast
qed

text \<open>
  Both dictionaries lack keys: the PAL one is empty, the CoT one has only a result. The
  call returns the CoT value with \<open>cot_only\<close> at 0.6.
\<close>

theorem verify_total_witness:
  "num_of (cot_confidence [''result'' \<mapsto> PStr ''5'']) \<noteq> None
   \<and> (\<exists>r. verify (\<lambda>r. []) \<lparr>prefer_pal = True\<rparr> Map.empty [''result'' \<mapsto> PStr ''5'']
             ''What is 2 + 3?'' = Inr r)
   \<and> verify (\<lambda>r. []) \<lparr>prefer_pal = True\<rparr> Map.empty [''result'' \<mapsto> PStr ''5'']
         ''What is 2 + 3?''
       = Inr \<lparr>final_answer = ''5'', method_name = ''cot_only'', confidence = PFloat f_0_6\<rparr>"
proof -
  let ?cot = "[''result'' \<mapsto> PStr ''5'']"
  have h: "num_of (cot_confidence ?cot) \<noteq> None" by code_simp
  have e: "verify (\<lambda>r. []) \<lparr>prefer_pal = True\<rparr> Map.empty ?cot ''What is 2 + 3?''
             = Inr \<lparr>final_answer = ''5'', method_name = ''cot_only'', confidence = PFloat f_0_6\<rparr>"
    by code_simp
  have t: "\<exists>r. verify (\<lambda>r. []) \<lparr>prefer_pal = True\<rparr> Map.empty ?cot ''What is 2 + 3?'' = Inr r"
    using verify_total [OF h, of "\<lambda>r. []" "\<lparr>prefer_pal = True\<rparr>" Map.empty "''What is 2 + 3?''"]
    by (rule conjunct1)
  show ?thesis
    by (intro conjI h t e)
qed

section \<open>Properties of the vote\<close>

text \<open>The counter holds each value once, in order of first occurrence, with its count.\<close>

lemma counter_add_keys:
  "map fst (counter_add acc k) = (if k \<in> fst ` set acc then map fst acc else map fst acc @ [k])"
  by (induction acc) (fastforce simp add: image_iff)+

lemma counter_add_map_of:
  "map_of (counter_add acc k) = (map_of acc)(k \<mapsto> (case map_of acc k of None \<Rightarrow> 1 | Some n \<Rightarrow> Suc n))"
  by (induction acc) (auto simp add: fun_eq_iff)

lemma Counter_snoc: "Counter (xs @ [x]) = counter_add (Counter xs) x"
  by (simp add: Counter_def)

lemma Counter_keys_set: "fst ` set (Counter xs) = set xs"
proof (induction xs rule: rev_induct)
  case Nil
  show ?case by (simp add: Counter_def)
next
  case (snoc x xs)
  have "set (map fst (Counter (xs @ [x]))) = set (xs @ [x])"
    unfolding Counter_snoc counter_add_keys using snoc by auto
  then show ?case by simp
qed

lemma Counter_keys_distinct: "distinct (map fst (Counter xs))"
proof (induction xs rule: rev_induct)
  case Nil
  show ?case by (simp add: Counter_def)
next
  case (snoc x xs)
  then show ?case
    unfolding Counter_snoc counter_add_keys by auto
qed

lemma Counter_map_of:
  "map_of (Counter xs) k = (if k \<in> set xs then Some (count_list xs k) else None)"
proof (induction xs arbitrary: k rule: rev_induct)
  case Nil
  show ?case by (simp add: Counter_def)
next
  case (snoc x xs)
  show ?case
    unfolding Counter_snoc counter_add_map_of by (simp add: snoc)
qed

lemma Counter_count: "(k, n) \<in> set (Counter xs) \<Longrightarrow> n = count_list xs k"
proof -
  assume "(k, n) \<in> set (Counter xs)"
  then have "map_of (Counter xs) k = Some n"
    using Counter_keys_distinct [of xs] by simp
  then show ?thesis
    by (simp add: Counter_map_of split: if_splits)
qed

lemma Counter_keys_before:
  "m \<in> set xs \<Longrightarrow>
     set (takeWhile (\<lambda>y. y \<noteq> m) (map fst (Counter xs))) = set (takeWhile (\<lambda>y. y \<noteq> m) xs)"
proof (induction xs rule: rev_induct)
  case Nil
  then show ?case by simp
next
  case (snoc x xs)
  have keys: "fst ` set (Counter xs) = set xs" by (rule Counter_keys_set)
  show ?case
  proof (cases "m \<in> set xs")
    case True
    then have "m \<in> set (map fst (Counter xs))" using keys by simp
    then show ?thesis
      unfolding Counter_snoc counter_add_keys using True snoc.IH
      by (simp add: takeWhile_append1 [where x = m] keys)
  next
    case False
    with snoc.prems have mx: "m = x" by simp
    have "takeWhile (\<lambda>y. y \<noteq> m) (map fst (Counter xs) @ [x]) = map fst (Counter xs)"
      using False keys mx by (subst takeWhile_append2) auto
    moreover have "takeWhile (\<lambda>y. y \<noteq> m) (xs @ [x]) = xs"
      using False mx by (subst takeWhile_append2) auto
    moreover have "x \<notin> fst ` set (Counter xs)" using False keys mx by simp
    ultimately show ?thesis
      unfolding Counter_snoc counter_add_keys using keys by simp
  qed
qed

lemma max_first_props:
  "(max_first b kvs = b \<or> max_first b kvs \<in> set kvs)
   \<and> snd b \<le> snd (max_first b kvs)
   \<and> (\<forall>kv \<in> set kvs. snd kv \<le> snd (max_first b kvs))
   \<and> (max_first b kvs \<noteq> b \<longrightarrow> snd b < snd (max_first b kvs)
        \<and> (\<forall>kv \<in> set (takeWhile (\<lambda>kv. kv \<noteq> max_first b kvs) kvs). snd kv < snd (max_first b kvs)))"
proof (induction kvs arbitrary: b)
  case Nil
  show ?case by simp
next
  case (Cons kv kvs)
  let ?b' = "if snd kv > snd b then kv else b"
  note IH = Cons.IH [of ?b']
  show ?case
    using IH by (auto split: if_splits)
qed


text \<open>
  What \<open>vote_answers\<close> computes. When no entry is left after the entries that are the
  empty string are dropped, it returns \<open>(None, 0)\<close>. Otherwise it returns the trimmed
  first entry of the input whose normalization is the winner \<open>m\<close>, and the count of \<open>m\<close>
  divided by the number of entries kept, where no value has more votes than \<open>m\<close> and
  every value occurring before the first \<open>m\<close> has strictly fewer. The entries are
  normalized after the test for emptiness, so an entry of whitespace only is among those
  kept. The function never raises.
\<close>

lemma vote_answers_majority:
  "(kept_answers answers = [] \<longrightarrow> vote_answers answers = Inr (None, 0))
   \<and> (kept_answers answers \<noteq> [] \<longrightarrow>
        (\<exists>m orig.
           vote_answers answers
             = Inr (Some (strip orig),
                    vote_confidence (count_list (normalized_answers answers) m)
                      (length (normalized_answers answers)))
           \<and> find (\<lambda>a. lower (strip a) = m) answers = Some orig
           \<and> m \<in> set (normalized_answers answers)
           \<and> (\<forall>m' \<in> set (normalized_answers answers).
                 count_list (normalized_answers answers) m'
                   \<le> count_list (normalized_answers answers) m)
           \<and> (\<forall>m' \<in> set (takeWhile (\<lambda>y. y \<noteq> m) (normalized_answers answers)).
                 count_list (normalized_answers answers) m'
                   < count_list (normalized_answers answers) m)))"
proof (intro conjI impI)
  assume "kept_answers answers = []"
  then show "vote_answers answers = Inr (None, 0)"
    by (simp add: vote_answers_def normalized_answers_def)
next
  assume kept: "kept_answers answers \<noteq> []"
  define norm where "norm = normalized_answers answers"
  have norm_ne: "norm \<noteq> []" using kept by (simp add: norm_def normalized_answers_def)
  have ans_ne: "answers \<noteq> []" using kept by (auto simp add: kept_answers_def)
  have "fst ` set (Counter norm) = set norm" by (rule Counter_keys_set)
  with norm_ne have "Counter norm \<noteq> []" by auto
  then obtain kv kvs where C: "Counter norm = kv # kvs" by (cases "Counter norm") auto
  obtain m c where r: "max_first kv kvs = (m, c)" by (cases "max_first kv kvs")
  have mc: "most_common1 (Counter norm) = [(m, c)]" by (simp add: most_common1_def C r)
  note P = max_first_props [of kv kvs, unfolded r]
  have r_in: "(m, c) \<in> set (Counter norm)" using P C by auto
  have c: "c = count_list norm m" using r_in by (rule Counter_count)
  have m_in: "m \<in> set norm" using r_in Counter_keys_set [of norm] by force
  have le: "count_list norm m' \<le> count_list norm m" if "m' \<in> set norm" for m'
  proof -
    from that have "map_of (Counter norm) m' = Some (count_list norm m')"
      by (simp add: Counter_map_of)
    then have "(m', count_list norm m') \<in> set (Counter norm)" by (rule map_of_SomeD)
    then have "count_list norm m' \<le> c" using P C by auto
    then show ?thesis by (simp add: c)
  qed
  have before: "count_list norm m' < count_list norm m"
    if "m' \<in> set (takeWhile (\<lambda>y. y \<noteq> m) norm)" for m'
  proof -
    have same: "takeWhile (\<lambda>p. fst p \<noteq> m) (Counter norm)
                  = takeWhile (\<lambda>p. p \<noteq> (m, c)) (Counter norm)"
    proof (rule takeWhile_cong [OF refl])
      fix p assume p: "p \<in> set (Counter norm)"
      obtain k v where kv: "p = (k, v)" by (cases p)
      have "v = c" if "k = m"
        using p r_in that kv Counter_keys_distinct [of norm]
        by (auto dest: eq_key_imp_eq_value)
      then show "(fst p \<noteq> m) = (p \<noteq> (m, c))"
        using kv by auto
    qed
    from that have "m' \<in> set (takeWhile (\<lambda>y. y \<noteq> m) (map fst (Counter norm)))"
      using Counter_keys_before [OF m_in] by simp
    then have "m' \<in> fst ` set (takeWhile (\<lambda>p. fst p \<noteq> m) (Counter norm))"
      by (simp add: takeWhile_map comp_def)
    then obtain n where n: "(m', n) \<in> set (takeWhile (\<lambda>p. p \<noteq> (m, c)) (Counter norm))"
      unfolding same by force
    then have "(m', n) \<in> set (Counter norm)" by (rule set_takeWhileD [THEN conjunct1])
    then have n_eq: "n = count_list norm m'" by (rule Counter_count)
    have "n < c"
    proof (cases "kv = (m, c)")
      case True
      with n C show ?thesis by simp
    next
      case False
      with n C have "(m', n) = kv \<or> (m', n) \<in> set (takeWhile (\<lambda>p. p \<noteq> (m, c)) kvs)" by auto
      with P False show ?thesis by auto
    qed
    then show ?thesis by (simp add: n_eq c)
  qed
  from m_in obtain a where a: "a \<in> set answers" "lower (strip a) = m"
    by (auto simp add: norm_def normalized_answers_def kept_answers_def)
  then have "find (\<lambda>a. lower (strip a) = m) answers \<noteq> None"
    by (auto simp add: find_None_iff)
  then obtain orig where orig: "find (\<lambda>a. lower (strip a) = m) answers = Some orig" by auto
  have "vote_answers answers
          = Inr (Some (strip orig), vote_confidence (count_list norm m) (length norm))"
    using ans_ne norm_ne mc orig by (simp add: vote_answers_def norm_def [symmetric] c Let_def)
  with orig m_in le before show "\<exists>m orig.
           vote_answers answers
             = Inr (Some (strip orig),
                    vote_confidence (count_list (normalized_answers answers) m)
                      (length (normalized_answers answers)))
           \<and> find (\<lambda>a. lower (strip a) = m) answers = Some orig
           \<and> m \<in> set (normalized_answers answers)
           \<and> (\<forall>m' \<in> set (normalized_answers answers).
                 count_list (normalized_answers answers) m'
                   \<le> count_list (normalized_answers answers) m)
           \<and> (\<forall>m' \<in> set (takeWhile (\<lambda>y. y \<noteq> m) (normalized_answers answers)).
                 count_list (normalized_answers answers) m'
                   < count_list (normalized_answers answers) m)"
    unfolding norm_def by blast
qed


text \<open>
  The examples of the spec: \<open>["8", "8", "9"]\<close> gives \<open>"8"\<close> with the double of 2/3, and
  the empty and the all-empty list give \<open>(None, 0)\<close>.
\<close>

lemma vote_answers_examples:
  "vote_answers [''8'', ''8'', ''9''] = Inr (Some ''8'', 6004799503160661 / 9007199254740992)"
  "vote_answers [] = Inr (None, 0)"
  "vote_answers [[], []] = Inr (None, 0)"
  by code_simp+

text \<open>
  C5. The claim discards the entries that are empty after trimming, and so do the two
  other votes of the repository, which strip an answer before they test it
  (\<open>CoTSolver.solve\<close>, \<open>ResponseParser.majority_vote\<close>). \<open>vote_answers\<close> tests the raw
  entry and trims afterwards: on \<open>[" ", " ", "8"]\<close> the two blanks outvote the answer and
  the result is the empty string with the double of 2/3, where the claim gives \<open>"8"\<close>
  with 1.
\<close>

theorem vote_answers_blank_votes:
  "vote_answers ['' '', '' '', ''8'']
     = Inr (Some [], 6004799503160661 / 9007199254740992)"
  by code_simp

text \<open>A single blank entry is a usable entry for \<open>vote_answers\<close>: it wins with confidence 1.\<close>

lemma vote_answers_single_blank:
  "vote_answers ['' ''] = Inr (Some [], 1)"
  by code_simp

section \<open>Properties of the pattern extraction\<close>

text \<open>
  For references with non-negative sentence indices the loop returns, and its hops are
  the references that resolve, in order, each with the role of its index in the whole
  list of supporting facts.
\<close>

lemma hop_loop_hops:
  assumes "\<forall>ref \<in> set facts. 0 \<le> snd ref"
  shows "\<exists>hops. hop_loop set_list qtype total_hops ctx idx facts = Inr hops
     \<and> map (\<lambda>h. (document_title h, sentence_id h, role h)) hops
         = map (\<lambda>(i, ref). (fst ref, snd ref, determine_hop_role i total_hops qtype))
             (filter (\<lambda>(i, ref). reference_resolves ctx ref) (enumerate idx facts))"
  using assms
proof (induction facts arbitrary: idx)
  case Nil
  show ?case by simp
next
  case (Cons ref facts)
  obtain d i where ref: "ref = (d, i)" by (cases ref)
  from Cons.prems have i0: "0 \<le> i" and rest: "\<forall>ref \<in> set facts. 0 \<le> snd ref"
    by (simp_all add: ref)
  from Cons.IH [OF rest, of "Suc idx"] obtain hops where
    hops: "hop_loop set_list qtype total_hops ctx (Suc idx) facts = Inr hops"
    and m: "map (\<lambda>h. (document_title h, sentence_id h, role h)) hops
         = map (\<lambda>(i, ref). (fst ref, snd ref, determine_hop_role i total_hops qtype))
             (filter (\<lambda>(i, ref). reference_resolves ctx ref) (enumerate (Suc idx) facts))"
    by blast
  show ?case
  proof (cases "reference_resolves ctx ref")
    case False
    then have "hop_loop set_list qtype total_hops ctx idx (ref # facts) = Inr hops"
      using hops by (auto simp add: ref reference_resolves_def split: option.splits)
    with m False show ?thesis by simp
  next
    case True
    then obtain sentences where s: "ctx d = Some sentences" and lt: "i < int (length sentences)"
      by (auto simp add: ref reference_resolves_def split: option.splits)
    have "py_index sentences i = Inr (sentences ! nat i)"
      using i0 lt by (simp add: py_index_def)
    then have "hop_loop set_list qtype total_hops ctx idx (ref # facts)
        = Inr (\<lparr>document_title = d, sentence_id = i, sentence_text = sentences ! nat i,
                 entities_extracted = extract_entities set_list (sentences ! nat i),
                 role = determine_hop_role idx total_hops qtype\<rparr> # hops)"
      using s lt hops by (simp add: ref)
    with m True show ?thesis by (simp add: ref)
  qed
qed


lemma find_bridge_entity_returns:
  assumes "\<forall>xs. set (set_list xs) = set xs"
  shows "\<exists>b. find_bridge_entity set_list hops = Inr b"
proof -
  have "\<exists>b. py_index (set_list xs) 0 = Inr b" if "xs \<noteq> []" for xs :: "string list"
  proof -
    from that assms have "set_list xs \<noteq> []" by (metis set_empty)
    then show ?thesis by (simp add: py_index_def)
  qed
  then show ?thesis
    by (fastforce simp add: find_bridge_entity_def Let_def)
qed

lemma final_index: "(int i = int n - 1) = (Suc i = n)"
  by auto

text \<open>
  How the source assigns the roles. When every sentence index is non-negative,
  \<open>extract_pattern\<close> on a bridge example returns a pattern; a reference whose document
  is not in the context or whose sentence index is not below the document's number of
  sentences gives no hop, the others give the hops in order. The role of a hop is
  computed from the index of its reference in \<open>supporting_facts\<close> and the length of that
  list, skipped references included, although the parameters of \<open>_determine_hop_role\<close>
  are called \<open>hop_idx\<close> and \<open>total_hops\<close>. The roles agree with the positions among the
  surviving hops when nothing is skipped: three supporting facts that all resolve give
  \<open>starter\<close>, \<open>bridge\<close>, \<open>final\<close>.
\<close>

lemma extract_pattern_roles:
  assumes "\<forall>ref \<in> set supporting_facts. 0 \<le> snd ref"
    and "\<forall>xs. set (set_list xs) = set xs"
  shows "\<exists>p. extract_pattern set_list qid q ''bridge'' lvl supporting_facts ctx ans = Inr p
     \<and> map (\<lambda>h. (document_title h, sentence_id h, role h)) (hops_p p)
         = map (\<lambda>(i, ref). (fst ref, snd ref,
                  if i = 0 then ''starter''
                  else if Suc i = length supporting_facts then ''final'' else ''bridge''))
             (filter (\<lambda>(i, ref). reference_resolves ctx ref) (enumerate 0 supporting_facts))
     \<and> (length supporting_facts = 3
          \<and> (\<forall>ref \<in> set supporting_facts. reference_resolves ctx ref)
        \<longrightarrow> map role (hops_p p) = [''starter'', ''bridge'', ''final''])"
proof -
  let ?n = "length supporting_facts"
  let ?role = "\<lambda>i::nat. if i = 0 then ''starter'' else if Suc i = ?n then ''final'' else ''bridge''"
  from hop_loop_hops [OF assms(1), of set_list "''bridge''" ?n ctx 0]
  obtain hops where
    loop: "hop_loop set_list ''bridge'' ?n ctx 0 supporting_facts = Inr hops"
    and m: "map (\<lambda>h. (document_title h, sentence_id h, role h)) hops
         = map (\<lambda>(i, ref). (fst ref, snd ref, determine_hop_role i ?n ''bridge''))
             (filter (\<lambda>(i, ref). reference_resolves ctx ref) (enumerate 0 supporting_facts))"
    by blast
  have role_eq: "determine_hop_role i ?n ''bridge'' = ?role i" for i
    by (simp add: determine_hop_role_def final_index)
  from find_bridge_entity_returns [OF assms(2), of hops]
  obtain b where b: "find_bridge_entity set_list hops = Inr b" by blast
  define p where "p = \<lparr>question_id_p = qid, question_p = q, question_type_p = ''bridge'',
      level_p = lvl, num_hops_p = length hops, hops_p = hops,
      bridge_entity_p = (if length hops \<ge> 2 then b else None),
      comparison_dimension_p = None, answer_p = ans\<rparr>"
  have ret: "extract_pattern set_list qid q ''bridge'' lvl supporting_facts ctx ans = Inr p"
    by (simp add: extract_pattern_def loop b p_def)
  have hp: "hops_p p = hops" by (simp add: p_def)
  have m': "map (\<lambda>h. (document_title h, sentence_id h, role h)) (hops_p p)
         = map (\<lambda>(i, ref). (fst ref, snd ref, ?role i))
             (filter (\<lambda>(i, ref). reference_resolves ctx ref) (enumerate 0 supporting_facts))"
    unfolding hp m role_eq ..
  have three: "map role (hops_p p) = [''starter'', ''bridge'', ''final'']"
    if len: "?n = 3" and all: "\<forall>ref \<in> set supporting_facts. reference_resolves ctx ref"
  proof -
    from len obtain r1 r2 r3 where f: "supporting_facts = [r1, r2, r3]"
      by (auto simp add: numeral_3_eq_3 length_Suc_conv)
    have "map (\<lambda>t. snd (snd t)) (map (\<lambda>h. (document_title h, sentence_id h, role h)) (hops_p p))
            = [''starter'', ''bridge'', ''final'']"
      unfolding m' using all by (simp add: f)
    then show ?thesis by (simp add: comp_def)
  qed
  show ?thesis
  proof (intro exI [of _ p] conjI impI)
    show "extract_pattern set_list qid q ''bridge'' lvl supporting_facts ctx ans = Inr p"
      by (rule ret)
    show "map (\<lambda>h. (document_title h, sentence_id h, role h)) (hops_p p)
         = map (\<lambda>(i, ref). (fst ref, snd ref, ?role i))
             (filter (\<lambda>(i, ref). reference_resolves ctx ref) (enumerate 0 supporting_facts))"
      by (rule m')
    assume "length supporting_facts = 3
          \<and> (\<forall>ref \<in> set supporting_facts. reference_resolves ctx ref)"
    then show "map role (hops_p p) = [''starter'', ''bridge'', ''final'']"
      using three by simp
  qed
qed

text \<open>
  A bridge example with three supporting facts that resolve, the first to the second
  sentence of its document.
\<close>

lemma extract_pattern_three_facts_example:
  "0 \<le> snd (''A'', 1 :: int) \<and> 0 \<le> snd (''A'', 0 :: int) \<and> 0 \<le> snd (''B'', 0 :: int)
   \<and> (\<forall>xs :: string list. set (remdups xs) = set xs)
   \<and> length [(''A'', 1 :: int), (''A'', 0), (''B'', 0)] = 3
   \<and> (\<exists>p. extract_pattern remdups ''q1'' ''Who met Alpha?'' ''bridge'' ''easy''
             [(''A'', 1), (''A'', 0), (''B'', 0)]
             [''A'' \<mapsto> [''Alpha one.'', ''It was big.''], ''B'' \<mapsto> [''Beta met Alpha.'']]
             ''Beta'' = Inr p
          \<and> map role (hops_p p) = [''starter'', ''bridge'', ''final''])"
proof -
  let ?facts = "[(''A'', 1 :: int), (''A'', 0), (''B'', 0)]"
  let ?ctx = "[''A'' \<mapsto> [''Alpha one.'', ''It was big.''], ''B'' \<mapsto> [''Beta met Alpha.'']]"
  have h1: "\<forall>ref \<in> set ?facts. 0 \<le> snd ref" by simp
  have h2: "\<forall>xs :: string list. set (remdups xs) = set xs" by simp
  have h3: "length ?facts = 3" by simp
  have h4: "\<forall>ref \<in> set ?facts. reference_resolves ?ctx ref"
    by (simp add: reference_resolves_def)
  from extract_pattern_roles [OF h1 h2, of "''q1''" "''Who met Alpha?''" "''easy''" ?ctx "''Beta''"]
  obtain p where
    e: "extract_pattern remdups ''q1'' ''Who met Alpha?'' ''bridge'' ''easy'' ?facts ?ctx ''Beta'' = Inr p"
    and t: "length ?facts = 3 \<and> (\<forall>ref \<in> set ?facts. reference_resolves ?ctx ref)
           \<longrightarrow> map role (hops_p p) = [''starter'', ''bridge'', ''final'']"
    by (elim exE conjE) (rule that)
  from t h3 h4 have "map role (hops_p p) = [''starter'', ''bridge'', ''final'']"
    by (rule_tac mp) (assumption, intro conjI)
  with e have "\<exists>p. extract_pattern remdups ''q1'' ''Who met Alpha?'' ''bridge'' ''easy''
             ?facts ?ctx ''Beta'' = Inr p
          \<and> map role (hops_p p) = [''starter'', ''bridge'', ''final'']"
    by (intro exI [of _ p] conjI)
  with h2 show ?thesis by simp
qed

text \<open>
  C7. The claim gives the first surviving hop the role \<open>starter\<close> and the last one
  \<open>final\<close>, and the rest of the source counts surviving hops (\<open>num_hops = len(hops)\<close>,
  \<open>_find_bridge_entity\<close> on \<open>hops[0]\<close> and \<open>hops[1]\<close>). \<open>extract_pattern\<close> passes the index
  of the reference and \<open>len(supporting_facts)\<close> instead: when the first of three
  references names a document that is not in the context, the two surviving hops are
  \<open>bridge\<close> and \<open>final\<close>, and no hop is \<open>starter\<close>.
\<close>

theorem extract_pattern_first_skipped:
  "extract_pattern remdups ''q1'' ''Who met Alpha?'' ''bridge'' ''easy''
     [(''M'', 0), (''A'', 0), (''B'', 0)]
     [''A'' \<mapsto> [''Alpha one.''], ''B'' \<mapsto> [''Beta met Alpha.'']]
     ''Beta''
   = Inr \<lparr>question_id_p = ''q1'', question_p = ''Who met Alpha?'',
          question_type_p = ''bridge'', level_p = ''easy'', num_hops_p = 2,
          hops_p =
            [\<lparr>document_title = ''A'', sentence_id = 0, sentence_text = ''Alpha one.'',
               entities_extracted = [''Alpha''], role = ''bridge''\<rparr>,
             \<lparr>document_title = ''B'', sentence_id = 0, sentence_text = ''Beta met Alpha.'',
               entities_extracted = [''Beta'', ''Alpha.''], role = ''final''\<rparr>],
          bridge_entity_p = Some ''Alpha'', comparison_dimension_p = None,
          answer_p = ''Beta''\<rparr>"
  by code_simp

text \<open>
  A second departure from the claim: the test \<open>sent_id < len(sentences)\<close> lets a negative
  index through to \<open>sentences[sent_id]\<close>. The index \<open>-3\<close> into a document of one sentence
  is not skipped, it raises \<open>IndexError\<close>; the index \<open>-1\<close> gives a hop from the last
  sentence.
\<close>

lemma extract_pattern_negative_index:
  "extract_pattern remdups ''q1'' ''Who met Alpha?'' ''bridge'' ''easy''
     [(''A'', - 3)] [''A'' \<mapsto> [''Alpha one.'']] ''Beta'' = Inl IndexError"
  "map_sum id (\<lambda>p. map sentence_text (hops_p p))
     (extract_pattern remdups ''q1'' ''Who met Alpha?'' ''bridge'' ''easy''
        [(''A'', - 1)] [''A'' \<mapsto> [''Alpha one.'', ''It was big.'']] ''Beta'')
   = Inr [''It was big.'']"
  by code_simp+

section \<open>Properties of the semantic index\<close>

lemma search_unknown_category:
  "lookup2 (indices self) qtype lvl = None \<Longrightarrow> search lib self query qtype lvl top_k = Inr []"
  by (simp add: search_def)

lemma search_no_examples:
  "lookup2 (indexed_examples self) qtype lvl = Some [] \<Longrightarrow>
     search lib self query qtype lvl top_k = Inr []"
  by (simp add: search_def split: option.splits)

lemma rank_all:
  assumes "mset r = mset [0..<n]" and "length examples = n"
  shows "mset (map (\<lambda>idx. examples ! nat idx)
                 (filter (\<lambda>idx. 0 \<le> idx \<and> idx < int n) (map int r))) = mset examples"
proof -
  have set_r: "set r = {0..<n}" using assms(1) by (metis mset_eq_setD set_upt)
  then have "filter (\<lambda>idx. 0 \<le> idx \<and> idx < int n) (map int r) = map int r"
    by (auto simp add: filter_id_conv)
  moreover have "map (\<lambda>idx. examples ! nat idx) (map int r) = map ((!) examples) r"
    by simp
  moreover have "mset (map ((!) examples) r) = mset (map ((!) examples) [0..<n])"
    using assms(1) by (metis mset_map)
  moreover have "map ((!) examples) [0..<n] = examples"
    using map_nth [of examples] by (simp add: assms(2))
  ultimately show ?thesis by (simp only:)
qed

lemma search_all:
  assumes norm: "\<forall>v. length (normalize_L2 lib v) = length v"
    and rank: "\<forall>rows q. mset (rank_ip lib rows q) = mset [0..<length rows]"
    and wf: "wf_index self"
    and ix: "lookup2 (indices self) qtype lvl = Some (Some ix)"
    and ex: "lookup2 (indexed_examples self) qtype lvl = Some examples"
    and ne: "examples \<noteq> []"
    and q: "length query = dimension self"
    and k: "top_k > int (length examples)"
  shows "\<exists>res. search lib self query qtype lvl top_k = Inr res \<and> mset res = mset examples"
proof -
  let ?n = "length examples"
  let ?r = "rank_ip lib (index_rows ix) (normalize_L2 lib query)"
  from wf ix obtain examples' where
    "lookup2 (indexed_examples self) qtype lvl = Some examples'"
    and "\<forall>ix'. Some ix = Some ix' \<longrightarrow>
           length (index_rows ix') = length examples' \<and> index_d ix' = dimension self"
    unfolding wf_index_def by blast
  with ex have rows: "length (index_rows ix) = ?n" and d: "index_d ix = dimension self"
    by simp_all
  have r: "mset ?r = mset [0..<?n]" using rank rows by simp
  then have len_r: "length ?r = ?n" by (metis size_mset length_upt diff_zero)
  have n0: "0 < ?n" using ne by simp
  have m: "min top_k (int ?n) = int ?n" using k by simp
  have labels: "index_search lib ix (normalize_L2 lib query) (int ?n) = Inr (map int ?r)"
    using norm q d n0 len_r by (simp add: index_search_def)
  have "search lib self query qtype lvl top_k =
          Inr (map (\<lambda>idx. examples ! nat idx)
                 (filter (\<lambda>idx. 0 \<le> idx \<and> idx < int ?n) (map int ?r)))"
    using ix ex ne by (simp add: search_def m labels)
  with rank_all [OF r refl] show ?thesis by blast
qed

text \<open>
  \<open>__init__\<close> establishes \<open>wf_index\<close> and \<open>build_index\<close> keeps it: every state reached by
  building satisfies it.
\<close>

lemma lookup2_set2:
  "set2 m k1 k2 v = Inr m' \<Longrightarrow>
     lookup2 m' a b = (if a = k1 \<and> b = k2 then Some v else lookup2 m a b)"
  by (auto simp add: set2_def lookup2_def split: option.splits if_splits)

lemma wf_init: "wf_index (init_index dimension0)"
  by (auto simp add: wf_index_def init_index_def lookup2_def split: if_splits)

lemma build_category_wf:
  assumes "\<forall>v. length (normalize_L2 lib v) = length v"
    and "wf_index self" and "build_category lib all_examples self cat = Inr self'"
  shows "wf_index self'"
proof -
  let ?ex = "filter (\<lambda>ex. ex_question_type ex = fst cat \<and> ex_level ex = snd cat) all_examples"
  show ?thesis
  proof (cases "length ?ex = 0")
    case True
    with assms show ?thesis by (simp add: build_category_def)
  next
    case False
    from assms(3) False obtain ie ii where
      ie: "set2 (indexed_examples self) (fst cat) (snd cat) ?ex = Inr ie"
      and ii: "set2 (indices self) (fst cat) (snd cat)
                 (Some \<lparr>index_d = dimension self,
                         index_rows = map (\<lambda>ex. normalize_L2 lib (embedding ex)) ?ex\<rparr>) = Inr ii"
      and s': "self' = self\<lparr>indices := ii, indexed_examples := ie\<rparr>"
      by (auto simp add: build_category_def Let_def split: sum.splits if_splits)
    show ?thesis
      unfolding wf_index_def s'
      using assms(2) by (auto simp add: wf_index_def lookup2_set2 [OF ie] lookup2_set2 [OF ii])
  qed
qed

lemma build_categories_wf:
  assumes "\<forall>v. length (normalize_L2 lib v) = length v"
  shows "wf_index self \<Longrightarrow> build_categories lib all_examples self cats = Inr self' \<Longrightarrow> wf_index self'"
proof (induction cats arbitrary: self)
  case Nil
  then show ?case by simp
next
  case (Cons cat cats)
  then show ?case
    by (auto split: sum.splits dest: build_category_wf [OF assms])
qed

lemma build_index_wf:
  assumes "\<forall>v. length (normalize_L2 lib v) = length v"
    and "wf_index self" and "build_index lib self patterns embeddings = Inr self'"
  shows "wf_index self'"
  using assms(2,3) build_categories_wf [OF assms(1)]
  by (auto simp add: build_index_def Let_def split: if_splits)


text \<open>
  C6. On an index whose categories are consistent (\<open>wf_index\<close>, as \<open>build_index\<close>
  leaves it), for every query and every \<open>top_k\<close>: \<open>search\<close> on a category that has no
  index (an unknown type or level, or a category that never got an example) returns the
  empty list, and so does \<open>search\<close> on a category whose list of examples is empty;
  neither raises. When \<open>top_k\<close> exceeds the number of examples stored in the category
  (and the query has the index's dimension), \<open>search\<close> returns exactly the stored
  examples, each once, and does not raise. The faiss library is assumed to keep the
  length of a vector when it normalizes it and to rank every stored row once.
\<close>

theorem search_empty_or_clamped:
  assumes "\<forall>v. length (normalize_L2 lib v) = length v"
    and "\<forall>rows q. mset (rank_ip lib rows q) = mset [0..<length rows]"
    and "wf_index self"
  shows "(lookup2 (indices self) qtype lvl = None \<longrightarrow>
            search lib self query qtype lvl top_k = Inr [])
     \<and> (lookup2 (indexed_examples self) qtype lvl = Some [] \<longrightarrow>
            search lib self query qtype lvl top_k = Inr [])
     \<and> (\<forall>ix examples.
            lookup2 (indices self) qtype lvl = Some (Some ix)
            \<and> lookup2 (indexed_examples self) qtype lvl = Some examples
            \<and> examples \<noteq> [] \<and> length query = dimension self
            \<and> int (length examples) < top_k
          \<longrightarrow> (\<exists>res. search lib self query qtype lvl top_k = Inr res
                      \<and> mset res = mset examples))"
  using search_unknown_category [of self qtype lvl lib query top_k]
    search_no_examples [of self qtype lvl lib query top_k]
    search_all [OF assms, of qtype lvl _ _ query top_k]
  by blast

text \<open>
  An index built from three patterns, two of them in the category bridge/easy: a search
  there with \<open>top_k = 5\<close> returns both examples, a search in the category bridge/hard,
  which has no index, returns nothing.
\<close>

theorem search_empty_or_clamped_witness:
  "(\<forall>v. length (normalize_L2 example_faiss v) = length v)
   \<and> (\<forall>rows q. mset (rank_ip example_faiss rows q) = mset [0..<length rows])
   \<and> (\<exists>s. build_index example_faiss (init_index 2)
              [example_pattern ''q1'' ''bridge'' ''easy'',
               example_pattern ''q2'' ''comparison'' ''hard'',
               example_pattern ''q3'' ''bridge'' ''easy'']
              [[1, 0], [0, 1], [3, 4]] = Inr s
          \<and> wf_index s
          \<and> lookup2 (indices s) ''bridge'' ''hard'' = None
          \<and> search example_faiss s [1, 0] ''bridge'' ''hard'' 5 = Inr []
          \<and> lookup2 (indices s) ''bridge'' ''easy''
              = Some (Some \<lparr>index_d = 2, index_rows = [[1, 0], [3, 4]]\<rparr>)
          \<and> lookup2 (indexed_examples s) ''bridge'' ''easy''
              = Some [make_example (example_pattern ''q1'' ''bridge'' ''easy'', [1, 0]),
                      make_example (example_pattern ''q3'' ''bridge'' ''easy'', [3, 4])]
          \<and> (\<exists>res. search example_faiss s [1, 0] ''bridge'' ''easy'' 5 = Inr res
                \<and> mset res
                    = mset [make_example (example_pattern ''q1'' ''bridge'' ''easy'', [1, 0]),
                            make_example (example_pattern ''q3'' ''bridge'' ''easy'', [3, 4])]))"
proof -
  let ?pats = "[example_pattern ''q1'' ''bridge'' ''easy'',
                example_pattern ''q2'' ''comparison'' ''hard'',
                example_pattern ''q3'' ''bridge'' ''easy'']"
  let ?embs = "[[1, 0], [0, 1], [3, 4 :: rat]]"
  let ?B = "build_index example_faiss (init_index 2) ?pats ?embs"
  let ?ix = "\<lparr>index_d = 2, index_rows = [[1, 0], [3, 4 :: rat]]\<rparr>"
  let ?exs = "[make_example (example_pattern ''q1'' ''bridge'' ''easy'', [1, 0 :: rat]),
               make_example (example_pattern ''q3'' ''bridge'' ''easy'', [3, 4])]"
  have n: "\<forall>v. length (normalize_L2 example_faiss v) = length v"
    by (simp add: example_faiss_def)
  have r: "\<forall>rows q. mset (rank_ip example_faiss rows q) = mset [0..<length rows]"
    by (simp add: example_faiss_def)
  have ev: "case ?B of
              Inl e \<Rightarrow> False
            | Inr s \<Rightarrow>
                lookup2 (indices s) ''bridge'' ''hard'' = None
                \<and> lookup2 (indices s) ''bridge'' ''easy'' = Some (Some ?ix)
                \<and> lookup2 (indexed_examples s) ''bridge'' ''easy'' = Some ?exs
                \<and> dimension s = 2"
    by code_simp
  then obtain s where b: "?B = Inr s"
    by (cases ?B) simp_all
  from ev b have none: "lookup2 (indices s) ''bridge'' ''hard'' = None"
    and ix: "lookup2 (indices s) ''bridge'' ''easy'' = Some (Some ?ix)"
    and exs: "lookup2 (indexed_examples s) ''bridge'' ''easy'' = Some ?exs"
    and dim: "dimension s = 2"
    by simp_all
  have wf: "wf_index s"
    using n wf_init b by (rule build_index_wf)
  have empty: "search example_faiss s [1, 0] ''bridge'' ''hard'' 5 = Inr []"
    using search_empty_or_clamped [OF n r wf, of "''bridge''" "''hard''" "[1, 0]" 5] none
    by blast
  have "?exs \<noteq> [] \<and> length [1, 0 :: rat] = dimension s \<and> int (length ?exs) < 5"
    by (simp add: dim)
  with ix exs
  have all: "\<exists>res. search example_faiss s [1, 0] ''bridge'' ''easy'' 5 = Inr res
                \<and> mset res = mset ?exs"
    using search_empty_or_clamped [OF n r wf, of "''bridge''" "''easy''" "[1, 0]" 5]
    by blast
  from b wf none empty ix exs all
  have "\<exists>s. ?B = Inr s \<and> wf_index s
          \<and> lookup2 (indices s) ''bridge'' ''hard'' = None
          \<and> search example_faiss s [1, 0] ''bridge'' ''hard'' 5 = Inr []
          \<and> lookup2 (indices s) ''bridge'' ''easy'' = Some (Some ?ix)
          \<and> lookup2 (indexed_examples s) ''bridge'' ''easy'' = Some ?exs
          \<and> (\<exists>res. search example_faiss s [1, 0] ''bridge'' ''easy'' 5 = Inr res
                \<and> mset res = mset ?exs)"
    by (intro exI [of _ s] conjI)
  with n r show ?thesis by (intro conjI)
qed

section \<open>Properties of the persisted state\<close>




section \<open>Properties of the answer normalization\<close>

text \<open>
  C8. The claim holds on the two examples of the spec, in the model as in the source.
\<close>

lemma normalize_answer_currency_example:
  "normalize_answer float_str ''$  1,234.50'' ''What is the total cost?'' = Inr ''1234.50''"
  by code_simp

lemma normalize_answer_how_many_example:
  "normalize_answer float_str ''#### 7'' ''How many apples?'' = Inr ''7''"
  by code_simp

text \<open>
  What the claim says holds for every answer whose number is finite or that is no number:
  with \<open>how many\<close> in the question the result is the truncated integer, a float under a
  currency question is printed with two digits after the point, and an answer that
  \<open>float\<close> rejects comes back cleaned. The only exception that leaves
  \<open>normalize_answer\<close> is the \<open>OverflowError\<close> of an infinity.
\<close>

lemma try_number_raises:
  assumes "try_number float_str cleaned question = Inl e"
  shows "e = ValueError
     \<or> (e = OverflowError \<and> (\<exists>negative. parse_float (number_string cleaned) = Some (Infinite negative)))"
  using assms
  by (auto simp add: try_number_def parse_number_def format_number_def py_int_def
      int_of_float_def is_integer_def
      split: option.splits sum.splits pyfloat.splits pynum.splits if_splits)

lemma normalize_answer_raises_only_overflow:
  assumes "normalize_answer float_str answer question = Inl e"
  shows "e = OverflowError
     \<and> (\<exists>negative. parse_float (number_string (clean_answer answer)) = Some (Infinite negative))"
proof -
  from assms obtain e' where t: "try_number float_str (clean_answer answer) question = Inl e'"
    and e': "e' \<noteq> ValueError" "e' \<noteq> TypeError" and ee: "e = e'"
    by (auto simp add: normalize_answer_def split: sum.splits py_error.splits)
  from try_number_raises [OF t] e' ee show ?thesis by auto
qed

lemma normalize_answer_finite_how_many:
  assumes "parse_float (number_string (clean_answer answer)) = Some (Finite negative m)"
    and "contains (lower question) ''how many''"
  shows "normalize_answer float_str answer question
           = Inr (int_str (if negative then - \<lfloor>m\<rfloor> else \<lfloor>m\<rfloor>))"
  using assms
  by (simp add: normalize_answer_def try_number_def parse_number_def format_number_def
      py_int_def int_of_float_def)

lemma normalize_answer_not_a_number:
  assumes "parse_float (number_string (clean_answer answer)) = None"
  shows "normalize_answer float_str answer question = Inr (strip (clean_answer answer))"
  using assms
  by (simp add: normalize_answer_def try_number_def parse_number_def)

lemma normalize_answer_finite_currency:
  assumes "parse_float (number_string (clean_answer answer)) = Some (Finite negative m)"
    and "CHR ''.'' \<in> set (number_string (clean_answer answer))
         \<or> CHR ''e'' \<in> set (lower (number_string (clean_answer answer)))"
    and "\<not> contains (lower question) ''how many''" and "concerns_currency question"
  shows "normalize_answer float_str answer question
           = Inr (sign_str negative @ pos_str (hundredths m div 100) @ ''.''
                    @ [digit_char (hundredths m div 10 mod 10), digit_char (hundredths m mod 10)])"
  using assms
  by (simp add: normalize_answer_def try_number_def parse_number_def format_number_def
      format_2f_def)

text \<open>
  C8 fails where the number is an infinity. \<open>float("inf")\<close> succeeds, the string has
  neither a point nor an \<open>e\<close>, so \<open>int(float("inf"))\<close> is evaluated and raises
  \<open>OverflowError\<close>, which the clause \<open>except (ValueError, TypeError)\<close> does not catch:
  \<open>normalize_answer\<close> raises, where the claim has it return the integer form of a
  number or the cleaned string.
\<close>

theorem normalize_answer_inf_raises:
  "normalize_answer float_str ''inf'' ''How many apples?'' = Inl OverflowError"
  by code_simp

end
